theory Spec2Isabelle
  imports Complex_Main "HOL-Library.Multiset" "HOL-Library.Sublist"
begin

section \<open>Data model (backend/models.py)\<close>

text \<open>
  The enumerations of \<^verbatim>\<open>models.py\<close> are datatypes, the pydantic models are records.
  The field \<^verbatim>\<open>severity: Literal["error", "warning"] = "error"\<close> is a two-valued
  datatype; its default is written out at every construction that omits it
  (\<open>ValidationIssue_new\<close> below).  Python integers are \<open>int\<close>; Python floats are
  idealised as \<open>real\<close> (rounding is not modelled).
\<close>

datatype ValidationStatus = ALLOW | ALLOW_WITH_WARNINGS | BLOCK

datatype ErrorCode =
    NOT_WATERTIGHT
  | NON_MANIFOLD
  | SELF_INTERSECTING
  | THIN_WALL
  | DEGENERATE_FACES
  | DUPLICATE_VERTICES
  | INVERTED_NORMALS
  | MULTIPLE_COMPONENTS

datatype Severity = error | warning

record ValidationIssue =
  code :: ErrorCode
  message :: string
  severity :: Severity
  count :: "int option"
  locations :: "(string \<times> string) list list option"

text \<open>
  \<^verbatim>\<open>ValidationIssue(code=c, message=m, count=n)\<close>: every construction in
  \<^verbatim>\<open>validator.py\<close> passes the code, the message and at most the count, so
  \<open>severity\<close> takes its default \<^verbatim>\<open>"error"\<close> and \<open>locations\<close> its default
  \<^verbatim>\<open>None\<close>.
\<close>

definition ValidationIssue_new :: "ErrorCode \<Rightarrow> string \<Rightarrow> int option \<Rightarrow> ValidationIssue" where
  "ValidationIssue_new c m n =
     \<lparr>code = c, message = m, severity = error, count = n, locations = None\<rparr>"

record MeshMetrics =
  triangles :: int
  vertices :: int
  components :: int
  bbox_mm :: "real list"
  volume_mm3 :: "real option"
  surface_area_mm2 :: "real option"
  units :: string

record ValidationReport =
  model_id :: string
  filename :: string
  metrics :: MeshMetrics
  errors :: "ValidationIssue list"
  warnings :: "ValidationIssue list"
  decision :: ValidationStatus
  processing_time_ms :: real
  timestamp :: string

section \<open>Exceptions, numpy helpers and the mesh object\<close>

text \<open>
  Python exceptions that can reach an \<^verbatim>\<open>except Exception\<close> clause, with their
  message (\<^verbatim>\<open>str(e)\<close>).  \<open>ExternalError\<close> stands for whatever the geometry
  library raises from one of its own computations.
\<close>

datatype exn =
    ValueError string
  | IndexError string
  | TypeError string
  | ExternalError string

fun str_exn :: "exn \<Rightarrow> string" where
  "str_exn (ValueError m) = m"
| "str_exn (IndexError m) = m"
| "str_exn (TypeError m) = m"
| "str_exn (ExternalError m) = m"

text \<open>Python's \<^verbatim>\<open>str\<close> on integers, used by the f-strings of the messages.\<close>

definition digit_char :: "nat \<Rightarrow> char" where
  "digit_char d = char_of (48 + d)"

function str_nat :: "nat \<Rightarrow> string" where
  "str_nat n = (if n < 10 then [digit_char n] else str_nat (n div 10) @ [digit_char (n mod 10)])"
  by pat_completeness auto
termination
  by (relation "measure id") auto

definition str_int :: "int \<Rightarrow> string" where
  "str_int i = (if i < 0 then CHR ''-'' # str_nat (nat (- i)) else str_nat (nat i))"

type_synonym vec3 = "real \<times> real \<times> real"

definition vsub :: "vec3 \<Rightarrow> vec3 \<Rightarrow> vec3" where
  "vsub a b = (case a of (ax, ay, az) \<Rightarrow> case b of (bx, by, bz) \<Rightarrow> (ax - bx, ay - by, az - bz))"

definition np_cross :: "vec3 \<Rightarrow> vec3 \<Rightarrow> vec3" where
  "np_cross a b =
     (case a of (ax, ay, az) \<Rightarrow> case b of (bx, by, bz) \<Rightarrow>
        (ay * bz - az * by, az * bx - ax * bz, ax * by - ay * bx))"

definition np_linalg_norm :: "vec3 \<Rightarrow> real" where
  "np_linalg_norm a = (case a of (ax, ay, az) \<Rightarrow> sqrt (ax * ax + ay * ay + az * az))"

text \<open>\<^verbatim>\<open>np.any(a < t)\<close> on an array of three components.\<close>

definition np_any_less :: "vec3 \<Rightarrow> real \<Rightarrow> bool" where
  "np_any_less a t = (case a of (ax, ay, az) \<Rightarrow> ax < t \<or> ay < t \<or> az < t)"

definition tolist :: "vec3 \<Rightarrow> real list" where
  "tolist a = (case a of (ax, ay, az) \<Rightarrow> [ax, ay, az])"

text \<open>
  \<^verbatim>\<open>np.argmin\<close>: the index of the first occurrence of the minimum; it raises
  \<^verbatim>\<open>ValueError\<close> on an empty array.
\<close>

fun argmin_from :: "real list \<Rightarrow> nat \<Rightarrow> real \<Rightarrow> nat \<Rightarrow> nat" where
  "argmin_from [] i best best_idx = best_idx"
| "argmin_from (x # xs) i best best_idx =
     (if x < best then argmin_from xs (Suc i) x i else argmin_from xs (Suc i) best best_idx)"

fun np_argmin :: "real list \<Rightarrow> exn + nat" where
  "np_argmin [] = Inl (ValueError ''attempt to get argmin of an empty sequence'')"
| "np_argmin (x # xs) = Inr (argmin_from xs 1 x 0)"

text \<open>
  Indexing a numpy array of length \<open>n\<close> with an integer: indices \<open>-n \<le> i < 0\<close> count
  from the end, anything outside \<open>-n \<le> i < n\<close> raises \<^verbatim>\<open>IndexError\<close>.
\<close>

definition np_index :: "'a list \<Rightarrow> int \<Rightarrow> exn + 'a" where
  "np_index xs i =
     (if int (length xs) \<le> i \<or> i < - int (length xs)
      then Inl (IndexError (''index '' @ str_int i @ '' is out of bounds for axis 0 with size ''
                             @ str_nat (length xs)))
      else if i < 0 then Inr (xs ! nat (int (length xs) + i))
      else Inr (xs ! nat i))"

text \<open>
  The mesh object handed to the validator.  \<open>vertices\<close> and \<open>faces\<close> are the arrays
  of the mesh; every other field is the outcome of an attribute or method of the geometry
  library (\<^verbatim>\<open>trimesh\<close>, not part of this repository), taken as given: \<open>Inl\<close> when
  the call raises.  \<open>bounds\<close> is \<^verbatim>\<open>None\<close> or the pair (min corner, max corner).
  \<open>split\<close> is \<^verbatim>\<open>len(mesh.split(only_watertight=False))\<close>, the only use the
  validator makes of the component list.  \<open>open_boundaries\<close> is \<open>None\<close> when the
  object has no such attribute (\<^verbatim>\<open>hasattr\<close> is false), else its length.
\<close>

record Trimesh =
  vertices :: "vec3 list"
  faces :: "(int \<times> int \<times> int) list"
  bounds :: "exn + (vec3 \<times> vec3) option"
  is_watertight :: "exn + bool"
  is_winding_consistent :: "exn + bool"
  volume :: "exn + real"
  surface_area :: "exn + real"
  split :: "exn + nat"
  open_boundaries :: "nat option"

text \<open>
  What \<^verbatim>\<open>trimesh.load\<close> returns: a scene (its \<^verbatim>\<open>geometry.values()\<close> in order)
  or a single object.  An object either has a \<^verbatim>\<open>vertices\<close> attribute, and is then
  modelled as a mesh, or has none.
\<close>

datatype geometry = Mesh Trimesh | NoVertices

datatype loaded = Scene "geometry list" | Single geometry

text \<open>
  Everything a run reads from outside the validator: the loader, the surface sampler
  (\<^verbatim>\<open>mesh.sample(count)\<close>, which draws random points), the identifier and clock
  values, and Python's formatting of a float inside an f-string.
\<close>

record env =
  load :: "string \<Rightarrow> exn + loaded"
  sample :: "Trimesh \<Rightarrow> nat \<Rightarrow> exn + vec3 list"
  uuid4 :: string
  elapsed_ms :: real
  utcnow_isoformat :: string
  str_float :: "real \<Rightarrow> string"

section \<open>Decision aggregation (MeshValidator._determine_decision)\<close>

text \<open>
  \<^verbatim>\<open>
  if any(error.severity == "error" for error in errors): return BLOCK
  elif warnings: return ALLOW_WITH_WARNINGS
  else: return ALLOW
  \<close>
\<close>

definition determine_decision ::
  "ValidationIssue list \<Rightarrow> ValidationIssue list \<Rightarrow> ValidationStatus" where
  "determine_decision errs warns =
     (if list_ex (\<lambda>e. severity e = error) errs then BLOCK
      else if warns \<noteq> [] then ALLOW_WITH_WARNINGS
      else ALLOW)"

section \<open>The validator (backend/validator.py)\<close>

record MeshValidator =
  thin_wall_threshold :: real
  min_volume_threshold :: real
  max_file_size_mb :: real

text \<open>
  \<^verbatim>\<open>MeshValidator.__init__\<close>: an argument that the caller omits (\<open>None\<close> here) takes
  its default, 0.5, 1.0 and 100.0.
\<close>

definition MeshValidator_init ::
  "real option \<Rightarrow> real option \<Rightarrow> real option \<Rightarrow> MeshValidator" where
  "MeshValidator_init thin vol mb =
     \<lparr>thin_wall_threshold = (case thin of None \<Rightarrow> 0.5 | Some t \<Rightarrow> t),
      min_volume_threshold = (case vol of None \<Rightarrow> 1.0 | Some t \<Rightarrow> t),
      max_file_size_mb = (case mb of None \<Rightarrow> 100.0 | Some t \<Rightarrow> t)\<rparr>"

subsection \<open>_load_mesh\<close>

text \<open>
  \<^verbatim>\<open>max(geometries, key=lambda x: len(x.vertices))\<close>: the first element whose key is
  maximal (a later element replaces the current one only when its key is strictly
  greater).
\<close>

fun max_by_vertices :: "Trimesh \<Rightarrow> Trimesh list \<Rightarrow> Trimesh" where
  "max_by_vertices best [] = best"
| "max_by_vertices best (g # gs) =
     (if length (vertices g) > length (vertices best) then max_by_vertices g gs
      else max_by_vertices best gs)"

text \<open>The body of the \<^verbatim>\<open>try\<close> block of \<^verbatim>\<open>_load_mesh\<close>.\<close>

definition load_mesh_try :: "env \<Rightarrow> string \<Rightarrow> exn + Trimesh" where
  "load_mesh_try ev file_path =
     (case load ev file_path of
        Inl e \<Rightarrow> Inl e
      | Inr obj \<Rightarrow>
          (case (case obj of
                   Scene gs \<Rightarrow>
                     (let geometries = concat (map (\<lambda>g. case g of Mesh m \<Rightarrow> [m] | NoVertices \<Rightarrow> []) gs)
                      in case geometries of
                           [] \<Rightarrow> Inl (ValueError ''No valid meshes found in scene'')
                         | g # rest \<Rightarrow> Inr (Mesh (max_by_vertices g rest)))
                 | Single g \<Rightarrow> Inr g) of
             Inl e \<Rightarrow> Inl e
           | Inr NoVertices \<Rightarrow> Inl (ValueError ''Empty or invalid mesh'')
           | Inr (Mesh mesh) \<Rightarrow>
               (if length (vertices mesh) = 0 then Inl (ValueError ''Empty or invalid mesh'')
                else Inr mesh)))"

text \<open>\<^verbatim>\<open>except Exception as e: raise ValueError(f"Failed to load mesh: {str(e)}")\<close>\<close>

definition load_mesh :: "env \<Rightarrow> string \<Rightarrow> exn + Trimesh" where
  "load_mesh ev file_path =
     (case load_mesh_try ev file_path of
        Inl e \<Rightarrow> Inl (ValueError (''Failed to load mesh: '' @ str_exn e))
      | Inr mesh \<Rightarrow> Inr mesh)"

subsection \<open>_compute_metrics\<close>

text \<open>
  The body of the \<^verbatim>\<open>try\<close> block, in the order of the source: the counts, the
  bounds (subscripting \<^verbatim>\<open>None\<close> raises \<^verbatim>\<open>TypeError\<close>), the volume (read only when
  the mesh is watertight), the surface area, the components.
\<close>

definition compute_metrics_try :: "Trimesh \<Rightarrow> exn + MeshMetrics" where
  "compute_metrics_try mesh =
     (let n_triangles = int (length (faces mesh));
          n_vertices = int (length (vertices mesh))
      in case bounds mesh of
           Inl e \<Rightarrow> Inl e
         | Inr None \<Rightarrow> Inl (TypeError [])
         | Inr (Some (lo, hi)) \<Rightarrow>
             (let bbox_size = vsub hi lo
              in case is_watertight mesh of
                   Inl e \<Rightarrow> Inl e
                 | Inr wt \<Rightarrow>
                     (case (if wt then map_sum id Some (volume mesh) else Inr None) of
                        Inl e \<Rightarrow> Inl e
                      | Inr vol \<Rightarrow>
                          (case surface_area mesh of
                             Inl e \<Rightarrow> Inl e
                           | Inr area \<Rightarrow>
                               (case split mesh of
                                  Inl e \<Rightarrow> Inl e
                                | Inr n_components \<Rightarrow>
                                    Inr \<lparr>triangles = n_triangles,
                                         MeshMetrics.vertices = n_vertices,
                                         components = int n_components,
                                         bbox_mm = tolist bbox_size,
                                         volume_mm3 = vol,
                                         surface_area_mm2 = Some area,
                                         units = ''mm''\<rparr>)))))"

text \<open>
  \<^verbatim>\<open>except Exception\<close>: the basic metrics.  The mesh object always has its
  \<^verbatim>\<open>faces\<close> and \<^verbatim>\<open>vertices\<close> here, so both \<^verbatim>\<open>hasattr\<close> tests hold.
\<close>

definition compute_metrics :: "Trimesh \<Rightarrow> MeshMetrics" where
  "compute_metrics mesh =
     (case compute_metrics_try mesh of
        Inr m \<Rightarrow> m
      | Inl e \<Rightarrow>
          \<lparr>triangles = int (length (faces mesh)),
           MeshMetrics.vertices = int (length (vertices mesh)),
           components = 1,
           bbox_mm = [0, 0, 0],
           volume_mm3 = None,
           surface_area_mm2 = None,
           units = ''mm''\<rparr>)"

subsection \<open>_find_degenerate_faces, _find_duplicate_vertices, _detect_thin_walls\<close>

text \<open>
  \<^verbatim>\<open>
  for i, face in enumerate(mesh.faces):
      v0, v1, v2 = mesh.vertices[face]
      area = 0.5 * np.linalg.norm(np.cross(v1 - v0, v2 - v0))
      if area < 1e-10: degenerate.append(i)
  \<close>
  The loop carries the index \<open>i\<close> and the list \<open>degenerate\<close>; an index of the face
  outside the vertex array raises \<^verbatim>\<open>IndexError\<close> out of the function.
\<close>

fun degenerate_loop ::
  "vec3 list \<Rightarrow> (int \<times> int \<times> int) list \<Rightarrow> nat \<Rightarrow> nat list \<Rightarrow> exn + nat list" where
  "degenerate_loop vs [] i degenerate = Inr degenerate"
| "degenerate_loop vs ((a, b, c) # fs) i degenerate =
     (case np_index vs a of
        Inl e \<Rightarrow> Inl e
      | Inr v0 \<Rightarrow>
          (case np_index vs b of
             Inl e \<Rightarrow> Inl e
           | Inr v1 \<Rightarrow>
               (case np_index vs c of
                  Inl e \<Rightarrow> Inl e
                | Inr v2 \<Rightarrow>
                    (let area = 0.5 * np_linalg_norm (np_cross (vsub v1 v0) (vsub v2 v0))
                     in if area < 1 / 10 ^ 10
                        then degenerate_loop vs fs (Suc i) (degenerate @ [i])
                        else degenerate_loop vs fs (Suc i) degenerate))))"

definition find_degenerate_faces :: "Trimesh \<Rightarrow> exn + nat list" where
  "find_degenerate_faces mesh = degenerate_loop (vertices mesh) (faces mesh) 0 []"

text \<open>
  \<^verbatim>\<open>
  for i in range(len(vertices)):
      for j in range(i + 1, len(vertices)):
          if np.linalg.norm(vertices[i] - vertices[j]) < 1e-6:
              duplicates.append(i); break
  \<close>
  The index \<open>i\<close> is appended once, when some later \<open>j\<close> passes the test.
\<close>

definition find_duplicate_vertices :: "Trimesh \<Rightarrow> nat list" where
  "find_duplicate_vertices mesh =
     (let vs = vertices mesh
      in filter (\<lambda>i. list_ex (\<lambda>j. np_linalg_norm (vsub (vs ! i) (vs ! j)) < 1 / 10 ^ 6)
                               [Suc i ..< length vs])
                [0 ..< length vs])"

record ThinRegion =
  point :: "real list"
  thickness :: real
  location :: string

text \<open>
  The loop over \<^verbatim>\<open>surface_points[:10]\<close>.  \<^verbatim>\<open>np.argmin\<close> raises when the mesh has
  no vertex; the \<^verbatim>\<open>except\<close> clause then ends the loop and the regions collected so
  far are returned.
\<close>

fun thin_walls_loop :: "real \<Rightarrow> vec3 list \<Rightarrow> vec3 list \<Rightarrow> ThinRegion list \<Rightarrow> ThinRegion list" where
  "thin_walls_loop thr vs [] thin_regions = thin_regions"
| "thin_walls_loop thr vs (p # ps) thin_regions =
     (let distances = map (\<lambda>v. np_linalg_norm (vsub v p)) vs
      in case np_argmin distances of
           Inl e \<Rightarrow> thin_regions
         | Inr nearest_idx \<Rightarrow>
             (let distance = distances ! nearest_idx
              in if distance < thr
                 then thin_walls_loop thr vs ps
                        (thin_regions @ [\<lparr>point = tolist p, thickness = distance,
                                          location = ''surface''\<rparr>])
                 else thin_walls_loop thr vs ps thin_regions))"

definition detect_thin_walls :: "MeshValidator \<Rightarrow> env \<Rightarrow> Trimesh \<Rightarrow> ThinRegion list" where
  "detect_thin_walls self ev mesh =
     (case sample ev mesh 1000 of
        Inl e \<Rightarrow> []
      | Inr surface_points \<Rightarrow>
          thin_walls_loop (thin_wall_threshold self) (vertices mesh) (take 10 surface_points) [])"

subsection \<open>_run_validation_checks\<close>

text \<open>
  The seven blocks of the source in order.  Reading \<^verbatim>\<open>is_watertight\<close>,
  \<^verbatim>\<open>is_winding_consistent\<close> and \<^verbatim>\<open>split\<close>, and the degenerate-face scan, stand
  outside any \<^verbatim>\<open>try\<close>: when one raises, the function raises.  The bounding-box
  block is inside \<^verbatim>\<open>try ... except Exception: pass\<close>.
\<close>

definition run_validation_checks ::
  "MeshValidator \<Rightarrow> env \<Rightarrow> Trimesh \<Rightarrow> exn + (ValidationIssue list \<times> ValidationIssue list)" where
  "run_validation_checks self ev mesh =
     (case is_watertight mesh of
        Inl e \<Rightarrow> Inl e
      | Inr wt \<Rightarrow>
     (let errs = (if \<not> wt
                  then [] @ [ValidationIssue_new NOT_WATERTIGHT
                               ''Mesh is not watertight (has open boundaries)''
                               (map_option int (open_boundaries mesh))]
                  else [])
      in case is_winding_consistent mesh of
        Inl e \<Rightarrow> Inl e
      | Inr wc \<Rightarrow>
     (let errs = (if \<not> wc
                  then errs @ [ValidationIssue_new NON_MANIFOLD ''Mesh has non-manifold edges'' None]
                  else errs);
          errs = (case bounds mesh of
                    Inr (Some (lo, hi)) \<Rightarrow>
                      (let bbox_size = vsub hi lo
                       in if np_any_less bbox_size (1 / 10 ^ 6)
                          then errs @ [ValidationIssue_new SELF_INTERSECTING
                                 ''Mesh appears to have self-intersections or is extremely thin''
                                 None]
                          else errs)
                  | _ \<Rightarrow> errs)
      in case split mesh of
        Inl e \<Rightarrow> Inl e
      | Inr n_components \<Rightarrow>
     (let warns = (if n_components > 1
                   then [] @ [ValidationIssue_new MULTIPLE_COMPONENTS
                                (''Mesh has '' @ str_nat n_components @ '' disconnected components'')
                                (Some (int n_components))]
                   else [])
      in case find_degenerate_faces mesh of
        Inl e \<Rightarrow> Inl e
      | Inr degenerate_faces \<Rightarrow>
     (let errs = (if length degenerate_faces > 0
                  then errs @ [ValidationIssue_new DEGENERATE_FACES
                                 (''Found '' @ str_nat (length degenerate_faces) @ '' degenerate faces'')
                                 (Some (int (length degenerate_faces)))]
                  else errs);
          duplicate_vertices = find_duplicate_vertices mesh;
          warns = (if length duplicate_vertices > 0
                   then warns @ [ValidationIssue_new DUPLICATE_VERTICES
                                   (''Found '' @ str_nat (length duplicate_vertices) @ '' duplicate vertices'')
                                   (Some (int (length duplicate_vertices)))]
                   else warns);
          thin_regions = detect_thin_walls self ev mesh;
          warns = (if length thin_regions > 0
                   then warns @ [ValidationIssue_new THIN_WALL
                                   (''Detected '' @ str_nat (length thin_regions)
                                      @ '' regions with thickness < ''
                                      @ str_float ev (thin_wall_threshold self) @ ''mm'')
                                   (Some (int (length thin_regions)))]
                   else warns)
      in Inr (errs, warns))))))"

subsection \<open>validate_mesh\<close>

text \<open>
  The \<^verbatim>\<open>try\<close> block loads the mesh, computes the metrics, runs the checks and
  decides; any exception raised inside it is caught by \<^verbatim>\<open>except Exception as e\<close>,
  which returns the error report.
\<close>

definition validate_mesh_try :: "MeshValidator \<Rightarrow> env \<Rightarrow> string \<Rightarrow> string \<Rightarrow> exn + ValidationReport" where
  "validate_mesh_try self ev file_path fname =
     (case load_mesh ev file_path of
        Inl e \<Rightarrow> Inl e
      | Inr mesh \<Rightarrow>
          (let m = compute_metrics mesh
           in case run_validation_checks self ev mesh of
                Inl e \<Rightarrow> Inl e
              | Inr (errs, warns) \<Rightarrow>
                  Inr \<lparr>model_id = uuid4 ev,
                       filename = fname,
                       metrics = m,
                       errors = errs,
                       warnings = warns,
                       decision = determine_decision errs warns,
                       processing_time_ms = elapsed_ms ev,
                       timestamp = utcnow_isoformat ev\<rparr>))"

definition validate_mesh :: "MeshValidator \<Rightarrow> env \<Rightarrow> string \<Rightarrow> string \<Rightarrow> ValidationReport" where
  "validate_mesh self ev file_path fname =
     (case validate_mesh_try self ev file_path fname of
        Inr report \<Rightarrow> report
      | Inl e \<Rightarrow>
          \<lparr>model_id = uuid4 ev,
           filename = fname,
           metrics = \<lparr>triangles = 0, MeshMetrics.vertices = 0, components = 0,
                      bbox_mm = [0, 0, 0], volume_mm3 = None, surface_area_mm2 = None,
                      units = ''mm''\<rparr>,
           errors = [ValidationIssue_new DEGENERATE_FACES
                       (''Failed to load mesh: '' @ str_exn e) None],
           warnings = [],
           decision = BLOCK,
           processing_time_ms = elapsed_ms ev,
           timestamp = utcnow_isoformat ev\<rparr>)"

section \<open>Notions of the specification\<close>

text \<open>
  The geometric notions the specification states its checks with, written from its
  words: the Euclidean distance of two points; the area of a triangle, half the magnitude
  of the cross product of the two edge vectors leaving its first vertex; a degenerate
  face, one whose area is below 1e-10; the Mesh Model invariant that every
  face index lies in \<open>[0, len(vertices))\<close>; the absence of two vertices (at distinct
  positions of the vertex array) within 1e-6 of each other; a bounding box
  whose extent is below 1e-6 on some axis; and the distance from a point to the
  nearest vertex.
\<close>

definition sq_dist :: "vec3 \<Rightarrow> vec3 \<Rightarrow> real" where
  "sq_dist a b =
     (case a of (ax, ay, az) \<Rightarrow> case b of (bx, by, bz) \<Rightarrow>
        (ax - bx)\<^sup>2 + (ay - by)\<^sup>2 + (az - bz)\<^sup>2)"

definition euclid_dist :: "vec3 \<Rightarrow> vec3 \<Rightarrow> real" where
  "euclid_dist a b = sqrt (sq_dist a b)"

text \<open>
  The squared magnitude of the cross product of the edge vectors \<open>q - p\<close> and
  \<open>r - p\<close>.
\<close>

definition sq_cross :: "vec3 \<Rightarrow> vec3 \<Rightarrow> vec3 \<Rightarrow> real" where
  "sq_cross p q r =
     (case p of (px, py, pz) \<Rightarrow> case q of (qx, qy, qz) \<Rightarrow> case r of (rx, ry, rz) \<Rightarrow>
        (let ux = qx - px; uy = qy - py; uz = qz - pz;
             wx = rx - px; wy = ry - py; wz = rz - pz
         in (uy * wz - uz * wy)\<^sup>2 + (uz * wx - ux * wz)\<^sup>2 + (ux * wy - uy * wx)\<^sup>2))"

definition triangle_area :: "vec3 \<Rightarrow> vec3 \<Rightarrow> vec3 \<Rightarrow> real" where
  "triangle_area p q r = sqrt (sq_cross p q r) / 2"

definition degenerate_face :: "vec3 list \<Rightarrow> int \<times> int \<times> int \<Rightarrow> bool" where
  "degenerate_face vs f =
     (case f of (a, b, c) \<Rightarrow> triangle_area (vs ! nat a) (vs ! nat b) (vs ! nat c) < 1 / 10 ^ 10)"

definition faces_in_range :: "Trimesh \<Rightarrow> bool" where
  "faces_in_range mesh =
     list_all (\<lambda>f. case f of (a, b, c) \<Rightarrow>
                 0 \<le> a \<and> a < int (length (vertices mesh)) \<and>
                 0 \<le> b \<and> b < int (length (vertices mesh)) \<and>
                 0 \<le> c \<and> c < int (length (vertices mesh)))
              (faces mesh)"

definition no_near_duplicates :: "vec3 list \<Rightarrow> bool" where
  "no_near_duplicates vs = sorted_wrt (\<lambda>v w. \<not> euclid_dist v w < 1 / 10 ^ 6) vs"

definition bbox_too_thin :: "Trimesh \<Rightarrow> bool" where
  "bbox_too_thin mesh =
     (case bounds mesh of
        Inr (Some ((lx, ly, lz), (hx, hy, hz))) \<Rightarrow>
          hx - lx < 1 / 10 ^ 6 \<or> hy - ly < 1 / 10 ^ 6 \<or> hz - lz < 1 / 10 ^ 6
      | _ \<Rightarrow> False)"

definition nearest_vertex_distance :: "vec3 list \<Rightarrow> vec3 \<Rightarrow> real" where
  "nearest_vertex_distance vs p = Min (set (map (\<lambda>v. euclid_dist v p) vs))"

text \<open>
  The sample points the thin-wall check evaluates: the first ten of the points the
  sampler returns when asked for 1000, none when the sampler fails; and those of them
  whose nearest vertex is closer than the threshold of the validator.
\<close>

definition evaluated_points :: "env \<Rightarrow> Trimesh \<Rightarrow> vec3 list" where
  "evaluated_points ev mesh =
     (case sample ev mesh 1000 of Inl e \<Rightarrow> [] | Inr surface_points \<Rightarrow> take 10 surface_points)"

definition thin_points :: "MeshValidator \<Rightarrow> env \<Rightarrow> Trimesh \<Rightarrow> vec3 list" where
  "thin_points self ev mesh =
     filter (\<lambda>p. nearest_vertex_distance (vertices mesh) p < thin_wall_threshold self)
            (evaluated_points ev mesh)"

text \<open>
  An input fails to parse when the loader raises (bytes that are no mesh), when the
  loaded scene holds no geometry with vertices, or when the mesh selected has no vertex.
  \<open>parse_failure\<close> gives the message of the failure, \<open>None\<close> when the input parses.
\<close>

definition parse_failure :: "env \<Rightarrow> string \<Rightarrow> string option" where
  "parse_failure ev file_path =
     (case load ev file_path of
        Inl e \<Rightarrow> Some (str_exn e)
      | Inr (Scene gs) \<Rightarrow>
          (if list_all (\<lambda>g. g = NoVertices) gs then Some ''No valid meshes found in scene''
           else if list_all (\<lambda>g. case g of Mesh m \<Rightarrow> vertices m = [] | NoVertices \<Rightarrow> True) gs
           then Some ''Empty or invalid mesh''
           else None)
      | Inr (Single NoVertices) \<Rightarrow> Some ''Empty or invalid mesh''
      | Inr (Single (Mesh m)) \<Rightarrow> (if vertices m = [] then Some ''Empty or invalid mesh'' else None))"

subsection \<open>Example inputs\<close>

text \<open>
  A closed tetrahedron with outward-facing triangles, as the geometry library reports it:
  watertight, consistently wound, one component.
\<close>

definition unit_tetra :: Trimesh where
  "unit_tetra =
     \<lparr>vertices = [(0, 0, 0), (1, 0, 0), (0, 1, 0), (0, 0, 1)],
      faces = [(0, 2, 1), (0, 1, 3), (0, 3, 2), (1, 2, 3)],
      bounds = Inr (Some ((0, 0, 0), (1, 1, 1))),
      is_watertight = Inr True,
      is_winding_consistent = Inr True,
      volume = Inr (1 / 6),
      surface_area = Inr (3 / 2 + sqrt 3 / 2),
      split = Inr 1,
      open_boundaries = None\<rparr>"


text \<open>
  Two disjoint copies of the unit tetrahedron, the second moved by 5 along x: two
  components.
\<close>

definition two_tetras :: Trimesh where
  "two_tetras =
     \<lparr>vertices = [(0, 0, 0), (1, 0, 0), (0, 1, 0), (0, 0, 1),
                  (5, 0, 0), (6, 0, 0), (5, 1, 0), (5, 0, 1)],
      faces = [(0, 2, 1), (0, 1, 3), (0, 3, 2), (1, 2, 3),
               (4, 6, 5), (4, 5, 7), (4, 7, 6), (5, 6, 7)],
      bounds = Inr (Some ((0, 0, 0), (6, 1, 1))),
      is_watertight = Inr True,
      is_winding_consistent = Inr True,
      volume = Inr (1 / 3),
      surface_area = Inr (3 + sqrt 3),
      split = Inr 2,
      open_boundaries = None\<rparr>"

text \<open>
  An environment whose loader returns \<open>l\<close> for every path and whose sampler returns
  \<open>s\<close> for every mesh and count.
\<close>

definition example_env :: "exn + loaded \<Rightarrow> exn + vec3 list \<Rightarrow> env" where
  "example_env l s =
     \<lparr>load = (\<lambda>_. l),
      sample = (\<lambda>_ _. s),
      uuid4 = ''0b5c1f9e-7a64-4f0e-9d0a-3c1a2b4d5e6f'',
      elapsed_ms = 12,
      utcnow_isoformat = ''2024-05-01T10:00:00'',
      str_float = (\<lambda>_. ''0.5'')\<rparr>"


text \<open>
  1000 sampled points at the centre of the slanted face of the unit tetrahedron, and 1000
  next to its corner at the origin.
\<close>

definition far_sample :: "vec3 list" where
  "far_sample = replicate 1000 (1 / 3, 1 / 3, 1 / 3)"

definition near_sample :: "vec3 list" where
  "near_sample = replicate 1000 (1 / 10, 1 / 10, 0)"

section \<open>Auxiliary facts about the checks\<close>

lemma norm_vsub_eq: "np_linalg_norm (vsub a b) = euclid_dist a b"
  by (cases a; cases b)
     (simp add: np_linalg_norm_def vsub_def euclid_dist_def sq_dist_def power2_eq_square)

lemma code_area_eq:
  "0.5 * np_linalg_norm (np_cross (vsub v1 v0) (vsub v2 v0)) = triangle_area v0 v1 v2"
  by (cases v0; cases v1; cases v2)
     (simp add: np_linalg_norm_def np_cross_def vsub_def triangle_area_def sq_cross_def
        power2_eq_square Let_def)

lemma np_index_in_range:
  "0 \<le> i \<Longrightarrow> i < int (length xs) \<Longrightarrow> np_index xs i = Inr (xs ! nat i)"
  by (simp add: np_index_def)

lemma degenerate_loop_in_range:
  "list_all (\<lambda>f. case f of (a, b, c) \<Rightarrow>
                 0 \<le> a \<and> a < int (length vs) \<and> 0 \<le> b \<and> b < int (length vs) \<and>
                 0 \<le> c \<and> c < int (length vs)) fs \<Longrightarrow>
   degenerate_loop vs fs i acc =
     Inr (acc @ map (\<lambda>k. i + k) (filter (\<lambda>k. degenerate_face vs (fs ! k)) [0 ..< length fs]))"
proof (induction fs arbitrary: i acc)
  case Nil
  then show ?case by simp
next
  case (Cons f fs)
  obtain a b c where f: "f = (a, b, c)" by (cases f) auto
  have upt: "[0 ..< length (f # fs)] = 0 # map Suc [0 ..< length fs]"
    by (simp add: upt_conv_Cons map_Suc_upt del: upt_Suc)
  from Cons.prems have rest: "list_all (\<lambda>f. case f of (a, b, c) \<Rightarrow>
                 0 \<le> a \<and> a < int (length vs) \<and> 0 \<le> b \<and> b < int (length vs) \<and>
                 0 \<le> c \<and> c < int (length vs)) fs"
    by simp
  from Cons.prems f have idx: "np_index vs a = Inr (vs ! nat a)" "np_index vs b = Inr (vs ! nat b)"
    "np_index vs c = Inr (vs ! nat c)"
    by (simp_all add: np_index_in_range)
  have step: "degenerate_loop vs (f # fs) i acc =
      (if degenerate_face vs f then degenerate_loop vs fs (Suc i) (acc @ [i])
       else degenerate_loop vs fs (Suc i) acc)"
    by (simp only: f degenerate_loop.simps idx sum.case Let_def code_area_eq degenerate_face_def
          prod.case)
  show ?case
    unfolding upt step
    by (simp add: Cons.IH[OF rest] filter_map o_def del: upt_Suc)
qed

lemma argmin_from_props:
  "best_idx < i \<Longrightarrow>
   (argmin_from xs i best best_idx = best_idx \<and> (\<forall>x\<in>set xs. best \<le> x)) \<or>
   (\<exists>j<length xs. argmin_from xs i best best_idx = i + j \<and> xs ! j < best \<and>
       (\<forall>x\<in>set xs. xs ! j \<le> x))"
proof (induction xs arbitrary: i best best_idx)
  case Nil
  then show ?case by simp
next
  case (Cons x xs)
  show ?case
  proof (cases "x < best")
    case True
    have "i < Suc i" by simp
    from Cons.IH[OF this, of x]
    show ?thesis
    proof
      assume "argmin_from xs (Suc i) x i = i \<and> (\<forall>y\<in>set xs. x \<le> y)"
      with True have "argmin_from (x # xs) i best best_idx = i + 0 \<and> (x # xs) ! 0 < best \<and>
          (\<forall>y\<in>set (x # xs). (x # xs) ! 0 \<le> y)" by simp
      then show ?thesis by blast
    next
      assume "\<exists>j<length xs. argmin_from xs (Suc i) x i = Suc i + j \<and> xs ! j < x \<and>
          (\<forall>y\<in>set xs. xs ! j \<le> y)"
      then obtain j where j: "j < length xs" "argmin_from xs (Suc i) x i = Suc i + j"
        "xs ! j < x" "\<forall>y\<in>set xs. xs ! j \<le> y" by blast
      with True have "Suc j < length (x # xs) \<and> argmin_from (x # xs) i best best_idx = i + Suc j \<and>
          (x # xs) ! Suc j < best \<and> (\<forall>y\<in>set (x # xs). (x # xs) ! Suc j \<le> y)" by auto
      then show ?thesis by blast
    qed
  next
    case False
    from Cons.prems have "best_idx < Suc i" by simp
    from Cons.IH[OF this, of best]
    show ?thesis
    proof
      assume "argmin_from xs (Suc i) best best_idx = best_idx \<and> (\<forall>y\<in>set xs. best \<le> y)"
      with False show ?thesis by auto
    next
      assume "\<exists>j<length xs. argmin_from xs (Suc i) best best_idx = Suc i + j \<and> xs ! j < best \<and>
          (\<forall>y\<in>set xs. xs ! j \<le> y)"
      then obtain j where j: "j < length xs" "argmin_from xs (Suc i) best best_idx = Suc i + j"
        "xs ! j < best" "\<forall>y\<in>set xs. xs ! j \<le> y" by blast
      with False have "Suc j < length (x # xs) \<and> argmin_from (x # xs) i best best_idx = i + Suc j \<and>
          (x # xs) ! Suc j < best \<and> (\<forall>y\<in>set (x # xs). (x # xs) ! Suc j \<le> y)" by auto
      then show ?thesis by blast
    qed
  qed
qed

lemma np_argmin_Min:
  assumes "xs \<noteq> []"
  shows "\<exists>k. np_argmin xs = Inr k \<and> k < length xs \<and> xs ! k = Min (set xs)"
proof -
  from assms obtain x rest where xs: "xs = x # rest" by (cases xs) auto
  let ?k = "argmin_from rest 1 x 0"
  have "(0::nat) < 1" by simp
  from argmin_from_props[OF this, of rest x]
  have "?k < length xs \<and> xs ! ?k = Min (set xs)"
  proof
    assume a: "?k = 0 \<and> (\<forall>y\<in>set rest. x \<le> y)"
    then have "Min (set xs) = x" unfolding xs by (intro Min_eqI) auto
    with a show ?thesis by (simp add: xs)
  next
    assume "\<exists>j<length rest. ?k = 1 + j \<and> rest ! j < x \<and> (\<forall>y\<in>set rest. rest ! j \<le> y)"
    then obtain j where j: "j < length rest" "?k = 1 + j" "rest ! j < x"
      "\<forall>y\<in>set rest. rest ! j \<le> y" by blast
    then have "Min (set xs) = rest ! j" unfolding xs
      by (intro Min_eqI) auto
    with j show ?thesis by (simp add: xs)
  qed
  then show ?thesis by (simp add: xs)
qed


lemma thin_walls_loop_eq:
  assumes "vs \<noteq> []"
  shows "thin_walls_loop thr vs ps acc =
     acc @ map (\<lambda>p. \<lparr>point = tolist p, thickness = nearest_vertex_distance vs p,
                      location = ''surface''\<rparr>)
             (filter (\<lambda>p. nearest_vertex_distance vs p < thr) ps)"
proof (induction ps arbitrary: acc)
  case Nil
  then show ?case by simp
next
  case (Cons p ps)
  let ?ds = "map (\<lambda>v. np_linalg_norm (vsub v p)) vs"
  from assms have "?ds \<noteq> []" by simp
  from np_argmin_Min[OF this] obtain k where k: "np_argmin ?ds = Inr k" "?ds ! k = Min (set ?ds)"
    by blast
  have "Min (set ?ds) = nearest_vertex_distance vs p"
    by (simp add: nearest_vertex_distance_def norm_vsub_eq)
  with k have d: "?ds ! k = nearest_vertex_distance vs p" by simp
  have step: "thin_walls_loop thr vs (p # ps) acc =
      (if nearest_vertex_distance vs p < thr
       then thin_walls_loop thr vs ps
              (acc @ [\<lparr>point = tolist p, thickness = nearest_vertex_distance vs p,
                         location = ''surface''\<rparr>])
       else thin_walls_loop thr vs ps acc)"
    by (simp only: thin_walls_loop.simps Let_def k(1) sum.case d)
  show ?case
    unfolding step by (simp add: Cons.IH)
qed

lemma thin_walls_loop_no_vertices: "thin_walls_loop thr [] ps acc = acc"
  by (cases ps) simp_all

lemma find_duplicate_vertices_empty_iff:
  "find_duplicate_vertices mesh = [] \<longleftrightarrow> no_near_duplicates (vertices mesh)"
  by (auto simp: find_duplicate_vertices_def no_near_duplicates_def Let_def filter_empty_conv
        list_ex_iff sorted_wrt_iff_nth_less norm_vsub_eq)

lemma run_validation_checks_Inr:
  assumes "is_watertight mesh = Inr wt" and "is_winding_consistent mesh = Inr wc"
    and "split mesh = Inr k" and "find_degenerate_faces mesh = Inr dg"
  shows "run_validation_checks self ev mesh =
     Inr ((if \<not> wt then [ValidationIssue_new NOT_WATERTIGHT
                            ''Mesh is not watertight (has open boundaries)''
                            (map_option int (open_boundaries mesh))] else [])
          @ (if \<not> wc then [ValidationIssue_new NON_MANIFOLD ''Mesh has non-manifold edges'' None]
             else [])
          @ (if bbox_too_thin mesh
             then [ValidationIssue_new SELF_INTERSECTING
                     ''Mesh appears to have self-intersections or is extremely thin'' None]
             else [])
          @ (if dg \<noteq> []
             then [ValidationIssue_new DEGENERATE_FACES
                     (''Found '' @ str_nat (length dg) @ '' degenerate faces'')
                     (Some (int (length dg)))]
             else []),
          (if k > 1
           then [ValidationIssue_new MULTIPLE_COMPONENTS
                   (''Mesh has '' @ str_nat k @ '' disconnected components'') (Some (int k))]
           else [])
          @ (if find_duplicate_vertices mesh \<noteq> []
             then [ValidationIssue_new DUPLICATE_VERTICES
                     (''Found '' @ str_nat (length (find_duplicate_vertices mesh))
                        @ '' duplicate vertices'')
                     (Some (int (length (find_duplicate_vertices mesh))))]
             else [])
          @ (if detect_thin_walls self ev mesh \<noteq> []
             then [ValidationIssue_new THIN_WALL
                     (''Detected '' @ str_nat (length (detect_thin_walls self ev mesh))
                        @ '' regions with thickness < ''
                        @ str_float ev (thin_wall_threshold self) @ ''mm'')
                     (Some (int (length (detect_thin_walls self ev mesh))))]
             else []))"
proof -
  have app: "\<And>c (xs :: ValidationIssue list) ys. (if c then xs @ ys else xs) = xs @ (if c then ys else [])"
    by simp
  have bbox: "(case bounds mesh of
                 Inr (Some (lo, hi)) \<Rightarrow>
                   (if np_any_less (vsub hi lo) (1 / 10 ^ 6) then xs @ ys else xs)
               | _ \<Rightarrow> xs) = xs @ (if bbox_too_thin mesh then ys else [])"
    for xs ys :: "ValidationIssue list"
    by (simp add: bbox_too_thin_def np_any_less_def vsub_def Let_def
          split: sum.splits option.splits prod.splits)
  show ?thesis
    unfolding run_validation_checks_def assms sum.case Let_def
    unfolding bbox
    unfolding app
    by (simp only: append_Nil append_assoc length_greater_0_conv)
qed

lemma run_validation_checks_Inr_D:
  assumes "run_validation_checks self ev mesh = Inr r"
  shows "\<exists>wt wc k dg. is_watertight mesh = Inr wt \<and> is_winding_consistent mesh = Inr wc \<and>
            split mesh = Inr k \<and> find_degenerate_faces mesh = Inr dg"
  using assms
  by (simp add: run_validation_checks_def Let_def split: sum.splits)

lemma run_validation_checks_Inl_iff:
  "run_validation_checks self ev mesh = Inl e \<longleftrightarrow>
     is_watertight mesh = Inl e
     \<or> (\<exists>wt. is_watertight mesh = Inr wt \<and> is_winding_consistent mesh = Inl e)
     \<or> (\<exists>wt wc. is_watertight mesh = Inr wt \<and> is_winding_consistent mesh = Inr wc \<and>
           split mesh = Inl e)
     \<or> (\<exists>wt wc k. is_watertight mesh = Inr wt \<and> is_winding_consistent mesh = Inr wc \<and>
           split mesh = Inr k \<and> find_degenerate_faces mesh = Inl e)"
  by (simp add: run_validation_checks_def Let_def split: sum.splits)

section \<open>Loading, metrics and the assembled report\<close>

lemma max_by_vertices_empty:
  "vertices (max_by_vertices best gs) = [] \<longleftrightarrow>
     vertices best = [] \<and> list_all (\<lambda>g. vertices g = []) gs"
proof (induction gs arbitrary: best)
  case Nil
  show ?case by simp
next
  case (Cons g gs)
  show ?case
  proof (cases "length (vertices g) > length (vertices best)")
    case True
    then have "vertices g \<noteq> []" by auto
    with True Cons.IH[of g] show ?thesis by simp
  next
    case False
    then have "vertices best = [] \<Longrightarrow> vertices g = []" by simp
    with False Cons.IH[of best] show ?thesis by auto
  qed
qed

lemma concat_meshes_Nil:
  "concat (map (\<lambda>g. case g of Mesh m \<Rightarrow> [m] | NoVertices \<Rightarrow> []) gs) = [] \<longleftrightarrow>
     list_all (\<lambda>g. g = NoVertices) gs"
proof (induction gs)
  case Nil
  show ?case by simp
next
  case (Cons a gs)
  then show ?case by (cases a) simp_all
qed

lemma concat_meshes_all:
  "list_all (\<lambda>m. vertices m = [])
     (concat (map (\<lambda>g. case g of Mesh m \<Rightarrow> [m] | NoVertices \<Rightarrow> []) gs)) \<longleftrightarrow>
   list_all (\<lambda>g. case g of Mesh m \<Rightarrow> vertices m = [] | NoVertices \<Rightarrow> True) gs"
proof (induction gs)
  case Nil
  show ?case by simp
next
  case (Cons a gs)
  then show ?case by (cases a) simp_all
qed

lemma scene_select:
  "(case (case ms of
            [] \<Rightarrow> Inl (ValueError a)
          | g # rest \<Rightarrow> Inr (Mesh (max_by_vertices g rest))) of
      Inl e \<Rightarrow> Inl e
    | Inr NoVertices \<Rightarrow> Inl (ValueError b)
    | Inr (Mesh mesh) \<Rightarrow>
        (if length (vertices mesh) = 0 then Inl (ValueError b) else Inr mesh)) =
   (case ms of
      [] \<Rightarrow> Inl (ValueError a)
    | g # rest \<Rightarrow>
        (if vertices (max_by_vertices g rest) = [] then Inl (ValueError b)
         else Inr (max_by_vertices g rest)))"
  by (cases ms) simp_all

lemma load_mesh_try_Scene:
  assumes "load ev file_path = Inr (Scene gs)"
  shows "load_mesh_try ev file_path =
        (case concat (map (\<lambda>g. case g of Mesh m \<Rightarrow> [m] | NoVertices \<Rightarrow> []) gs) of
           [] \<Rightarrow> Inl (ValueError ''No valid meshes found in scene'')
         | g # rest \<Rightarrow>
             (if vertices (max_by_vertices g rest) = []
              then Inl (ValueError ''Empty or invalid mesh'')
              else Inr (max_by_vertices g rest)))"
  unfolding load_mesh_try_def assms Let_def
  by (simp only: sum.case loaded.case scene_select)

lemma parse_failure_Scene:
  assumes "load ev file_path = Inr (Scene gs)"
  shows "parse_failure ev file_path =
        (if list_all (\<lambda>g. g = NoVertices) gs then Some ''No valid meshes found in scene''
         else if list_all (\<lambda>g. case g of Mesh m \<Rightarrow> vertices m = [] | NoVertices \<Rightarrow> True) gs
         then Some ''Empty or invalid mesh''
         else None)"
  unfolding parse_failure_def assms by simp

lemma load_mesh_try_cases:
  "(case parse_failure ev file_path of
      Some msg \<Rightarrow> \<exists>e. load_mesh_try ev file_path = Inl e \<and> str_exn e = msg
    | None \<Rightarrow> \<exists>mesh. load_mesh_try ev file_path = Inr mesh \<and> vertices mesh \<noteq> [])"
proof (cases "load ev file_path")
  case (Inl e)
  then show ?thesis by (simp add: parse_failure_def load_mesh_try_def)
next
  case (Inr obj)
  show ?thesis
  proof (cases obj)
    case (Single g)
    show ?thesis
    proof (cases g)
      case (Mesh m)
      with Inr Single show ?thesis by (simp add: parse_failure_def load_mesh_try_def)
    next
      case NoVertices
      with Inr Single show ?thesis by (simp add: parse_failure_def load_mesh_try_def)
    qed
  next
    case (Scene gs)
    with Inr have ld: "load ev file_path = Inr (Scene gs)" by simp
    define ms where "ms = concat (map (\<lambda>g. case g of Mesh m \<Rightarrow> [m] | NoVertices \<Rightarrow> []) gs)"
    note l = load_mesh_try_Scene[OF ld, folded ms_def]
    note p = parse_failure_Scene[OF ld]
    have nil: "ms = [] \<longleftrightarrow> list_all (\<lambda>g. g = NoVertices) gs"
      unfolding ms_def by (rule concat_meshes_Nil)
    have all: "list_all (\<lambda>m. vertices m = []) ms \<longleftrightarrow>
        list_all (\<lambda>g. case g of Mesh m \<Rightarrow> vertices m = [] | NoVertices \<Rightarrow> True) gs"
      unfolding ms_def by (rule concat_meshes_all)
    show ?thesis
    proof (cases ms)
      case Nil
      with nil have "list_all (\<lambda>g. g = NoVertices) gs" by simp
      then have "parse_failure ev file_path = Some ''No valid meshes found in scene''"
        unfolding p by simp
      moreover have "load_mesh_try ev file_path = Inl (ValueError ''No valid meshes found in scene'')"
        unfolding l Nil by simp
      ultimately show ?thesis by simp
    next
      case (Cons g rest)
      with nil have no: "\<not> list_all (\<lambda>g. g = NoVertices) gs" by simp
      have e: "list_all (\<lambda>g. case g of Mesh m \<Rightarrow> vertices m = [] | NoVertices \<Rightarrow> True) gs
          \<longleftrightarrow> vertices (max_by_vertices g rest) = []"
        unfolding all[symmetric] Cons by (simp add: max_by_vertices_empty)
      have p': "parse_failure ev file_path =
          (if vertices (max_by_vertices g rest) = [] then Some ''Empty or invalid mesh'' else None)"
        unfolding p using no e by simp
      have l': "load_mesh_try ev file_path =
          (if vertices (max_by_vertices g rest) = [] then Inl (ValueError ''Empty or invalid mesh'')
           else Inr (max_by_vertices g rest))"
        unfolding l Cons by simp
      show ?thesis unfolding l' p' by simp
    qed
  qed
qed

lemma load_mesh_parse_failure:
  assumes "parse_failure ev file_path = Some msg"
  shows "\<exists>e. load_mesh ev file_path = Inl e \<and> str_exn e = ''Failed to load mesh: '' @ msg"
proof -
  from load_mesh_try_cases[of ev file_path] assms
  obtain e where "load_mesh_try ev file_path = Inl e" "str_exn e = msg" by auto
  then show ?thesis by (simp add: load_mesh_def)
qed

lemma load_mesh_parses:
  assumes "parse_failure ev file_path = None"
  shows "\<exists>mesh. load_mesh ev file_path = Inr mesh \<and> vertices mesh \<noteq> []"
proof -
  from load_mesh_try_cases[of ev file_path] assms
  have "\<exists>mesh. load_mesh_try ev file_path = Inr mesh \<and> vertices mesh \<noteq> []" by simp
  then obtain mesh where "load_mesh_try ev file_path = Inr mesh" "vertices mesh \<noteq> []" by blast
  then have "load_mesh ev file_path = Inr mesh \<and> vertices mesh \<noteq> []" by (simp add: load_mesh_def)
  then show ?thesis by blast
qed

lemma load_mesh_Inr_iff:
  "(\<exists>mesh. load_mesh ev file_path = Inr mesh) \<longleftrightarrow> parse_failure ev file_path = None"
proof (cases "parse_failure ev file_path")
  case None
  with load_mesh_parses[OF None] show ?thesis by blast
next
  case (Some msg)
  from load_mesh_parse_failure[OF Some] obtain e where "load_mesh ev file_path = Inl e" by blast
  with Some show ?thesis by simp
qed

lemma load_mesh_vertices:
  assumes "load_mesh ev file_path = Inr mesh"
  shows "vertices mesh \<noteq> []"
proof -
  from assms load_mesh_Inr_iff[of ev file_path] have "parse_failure ev file_path = None" by blast
  from load_mesh_parses[OF this] assms show ?thesis by simp
qed

text \<open>
  Claim C2: for every input that fails to parse (the loader raises, the scene holds no
  geometry with vertices, or the selected mesh has no vertex), \<open>validate_mesh\<close> returns a
  report whose metrics have triangle, vertex and component counts 0 and a zero bounding
  box, whose errors list is exactly one issue coded DEGENERATE_FACES that carries the
  failure message, whose warnings list is empty and whose decision is BLOCK.
  \<open>validate_mesh\<close> is a total function into reports: no exception escapes it.
\<close>

theorem unparseable_input_report:
  assumes "parse_failure ev file_path = Some msg"
  shows "validate_mesh self ev file_path fname =
     \<lparr>model_id = uuid4 ev,
      filename = fname,
      metrics = \<lparr>triangles = 0, MeshMetrics.vertices = 0, components = 0, bbox_mm = [0, 0, 0],
                 volume_mm3 = None, surface_area_mm2 = None, units = ''mm''\<rparr>,
      errors = [\<lparr>code = DEGENERATE_FACES,
                 message = ''Failed to load mesh: Failed to load mesh: '' @ msg,
                 severity = error, count = None, locations = None\<rparr>],
      warnings = [],
      decision = BLOCK,
      processing_time_ms = elapsed_ms ev,
      timestamp = utcnow_isoformat ev\<rparr>"
proof -
  from load_mesh_parse_failure[OF assms] obtain e where
    e: "load_mesh ev file_path = Inl e" "str_exn e = ''Failed to load mesh: '' @ msg" by blast
  then show ?thesis
    by (simp add: validate_mesh_def validate_mesh_try_def ValidationIssue_new_def)
qed

text \<open>
  Claim C2, witness: the three kinds of parse failure (bytes the loader rejects, an empty
  scene, a mesh without vertices), each giving the BLOCK report.
\<close>

theorem unparseable_input_report_witness:
  "parse_failure (example_env (Inl (ValueError ''not a mesh'')) (Inr [])) ''junk.stl''
     = Some ''not a mesh''
   \<and> parse_failure (example_env (Inr (Scene [])) (Inr [])) ''empty.glb''
     = Some ''No valid meshes found in scene''
   \<and> parse_failure
        (example_env (Inr (Single (Mesh (unit_tetra\<lparr>vertices := [], faces := []\<rparr>)))) (Inr []))
        ''empty.stl'' = Some ''Empty or invalid mesh''
   \<and> decision (validate_mesh (MeshValidator_init None None None)
        (example_env (Inl (ValueError ''not a mesh'')) (Inr [])) ''junk.stl'' ''junk.stl'') = BLOCK
   \<and> map code (errors (validate_mesh (MeshValidator_init None None None)
        (example_env (Inr (Scene [])) (Inr [])) ''empty.glb'' ''empty.glb'')) = [DEGENERATE_FACES]
   \<and> map message (errors (validate_mesh (MeshValidator_init None None None)
        (example_env (Inr (Single (Mesh (unit_tetra\<lparr>vertices := [], faces := []\<rparr>)))) (Inr []))
        ''empty.stl'' ''empty.stl''))
      = [''Failed to load mesh: Failed to load mesh: Empty or invalid mesh'']"
proof -
  have a: "parse_failure (example_env (Inl (ValueError ''not a mesh'')) (Inr [])) ''junk.stl''
      = Some ''not a mesh''"
    by (simp add: parse_failure_def example_env_def)
  have b: "parse_failure (example_env (Inr (Scene [])) (Inr [])) ''empty.glb''
      = Some ''No valid meshes found in scene''"
    by (simp add: parse_failure_def example_env_def)
  have c: "parse_failure
        (example_env (Inr (Single (Mesh (unit_tetra\<lparr>vertices := [], faces := []\<rparr>)))) (Inr []))
        ''empty.stl'' = Some ''Empty or invalid mesh''"
    by (simp add: parse_failure_def example_env_def)
  show ?thesis
    unfolding unparseable_input_report[OF a] unparseable_input_report[OF b]
      unparseable_input_report[OF c]
    using a b c by simp
qed

lemma compute_metrics_try_Inr_D:
  assumes "compute_metrics_try mesh = Inr m"
  shows "(\<exists>lo hi. bounds mesh = Inr (Some (lo, hi)))
         \<and> (\<exists>wt. is_watertight mesh = Inr wt \<and> (wt \<longrightarrow> (\<exists>v. volume mesh = Inr v)))
         \<and> (\<exists>a. surface_area mesh = Inr a)
         \<and> (\<exists>k. split mesh = Inr k)"
proof (cases "bounds mesh")
  case (Inl e)
  with assms show ?thesis by (simp add: compute_metrics_try_def)
next
  case (Inr b)
  show ?thesis
  proof (cases b)
    case None
    with Inr assms show ?thesis by (simp add: compute_metrics_try_def)
  next
    case (Some box)
    obtain lo hi where box: "box = (lo, hi)" by (cases box)
    show ?thesis
    proof (cases "is_watertight mesh")
      case (Inl e)
      with Inr Some box assms show ?thesis by (simp add: compute_metrics_try_def)
    next
      case wt: (Inr wt)
      show ?thesis
      proof (cases "surface_area mesh")
        case (Inl e)
        with Inr Some box wt assms show ?thesis
          by (cases wt; cases "volume mesh") (simp_all add: compute_metrics_try_def)
      next
        case ar: (Inr ar)
        show ?thesis
        proof (cases "split mesh")
          case (Inl e)
          with Inr Some box wt ar assms show ?thesis
            by (cases wt; cases "volume mesh") (simp_all add: compute_metrics_try_def)
        next
          case sp: (Inr k)
          have "\<exists>l h. bounds mesh = Inr (Some (l, h))" using Inr Some box by blast
          moreover have "wt \<longrightarrow> (\<exists>v. volume mesh = Inr v)"
            using Inr Some box wt ar sp assms
            by (cases wt; cases "volume mesh") (simp_all add: compute_metrics_try_def)
          ultimately show ?thesis using wt ar sp by blast
        qed
      qed
    qed
  qed
qed

text \<open>
  Claim C6: when a sub-computation of the metrics raises (reading the bounds, which may
  also be \<open>None\<close>; the watertightness; the volume of a watertight mesh; the surface
  area; the component split), \<open>compute_metrics\<close> returns the partial metrics: the
  triangle and vertex counts of the mesh, component count 1, a zero bounding box.
  \<open>compute_metrics\<close> is a total function into metrics: it raises nothing.
\<close>

theorem compute_metrics_degrades:
  assumes "(\<exists>e. bounds mesh = Inl e) \<or> bounds mesh = Inr None
           \<or> (\<exists>e. is_watertight mesh = Inl e)
           \<or> (is_watertight mesh = Inr True \<and> (\<exists>e. volume mesh = Inl e))
           \<or> (\<exists>e. surface_area mesh = Inl e)
           \<or> (\<exists>e. split mesh = Inl e)"
  shows "compute_metrics mesh =
     \<lparr>triangles = int (length (faces mesh)),
      MeshMetrics.vertices = int (length (vertices mesh)),
      components = 1,
      bbox_mm = [0, 0, 0],
      volume_mm3 = None,
      surface_area_mm2 = None,
      units = ''mm''\<rparr>"
proof (cases "compute_metrics_try mesh")
  case (Inl e)
  then show ?thesis by (simp add: compute_metrics_def)
next
  case (Inr m)
  from compute_metrics_try_Inr_D[OF Inr] assms have False by auto
  then show ?thesis ..
qed

text \<open>
  Claim C6, witness: the unit tetrahedron when the component split raises.
\<close>

theorem compute_metrics_degrades_witness:
  "split (unit_tetra\<lparr>split := Inl (ExternalError ''no graph engine'')\<rparr>)
     = Inl (ExternalError ''no graph engine'')
   \<and> compute_metrics (unit_tetra\<lparr>split := Inl (ExternalError ''no graph engine'')\<rparr>) =
     \<lparr>triangles = 4, MeshMetrics.vertices = 4, components = 1, bbox_mm = [0, 0, 0],
      volume_mm3 = None, surface_area_mm2 = None, units = ''mm''\<rparr>"
  using compute_metrics_degrades[of "unit_tetra\<lparr>split := Inl (ExternalError ''no graph engine'')\<rparr>"]
  by (simp add: unit_tetra_def)

lemma sqrt_less_iff: "0 < c \<Longrightarrow> sqrt x < c \<longleftrightarrow> x < c * c"
  by (metis abs_of_pos real_sqrt_abs2 real_sqrt_less_iff)

lemma euclid_dist_less_iff: "0 < c \<Longrightarrow> euclid_dist a b < c \<longleftrightarrow> sq_dist a b < c * c"
  by (simp add: euclid_dist_def sqrt_less_iff)

lemma near_duplicate_iff: "euclid_dist a b < 1 / 10 ^ 6 \<longleftrightarrow> sq_dist a b < 1 / 10 ^ 12"
  using euclid_dist_less_iff[of "1 / 10 ^ 6" a b] by simp

lemma no_near_duplicates_sq:
  "no_near_duplicates vs = sorted_wrt (\<lambda>v w. \<not> sq_dist v w < 1 / 10 ^ 12) vs"
  unfolding no_near_duplicates_def near_duplicate_iff ..

lemma triangle_area_less_iff:
  "triangle_area p q r < 1 / 10 ^ 10 \<longleftrightarrow> sq_cross p q r < 4 / 10 ^ 20"
proof -
  have "triangle_area p q r < 1 / 10 ^ 10 \<longleftrightarrow> sqrt (sq_cross p q r) < 2 / 10 ^ 10"
    by (simp add: triangle_area_def mult.commute)
  also have "\<dots> \<longleftrightarrow> sq_cross p q r < (2 / 10 ^ 10) * (2 / 10 ^ 10)"
    by (rule sqrt_less_iff) simp
  also have "\<dots> \<longleftrightarrow> sq_cross p q r < 4 / 10 ^ 20"
    by simp
  finally show ?thesis .
qed

lemma degenerate_face_sq:
  "degenerate_face vs f =
     (case f of (a, b, c) \<Rightarrow> sq_cross (vs ! nat a) (vs ! nat b) (vs ! nat c) < 4 / 10 ^ 20)"
  unfolding degenerate_face_def triangle_area_less_iff ..

lemma nearest_vertex_distance_less_iff:
  assumes "vs \<noteq> []" and "0 < thr"
  shows "nearest_vertex_distance vs p < thr \<longleftrightarrow> list_ex (\<lambda>v. sq_dist v p < thr * thr) vs"
proof -
  have fin: "finite (set (map (\<lambda>v. euclid_dist v p) vs))" by simp
  have ne: "set (map (\<lambda>v. euclid_dist v p) vs) \<noteq> {}" using assms(1) by simp
  have "nearest_vertex_distance vs p < thr \<longleftrightarrow>
      (\<exists>d\<in>set (map (\<lambda>v. euclid_dist v p) vs). d < thr)"
    unfolding nearest_vertex_distance_def by (rule Min_less_iff[OF fin ne])
  also have "\<dots> \<longleftrightarrow> (\<exists>v\<in>set vs. euclid_dist v p < thr)" by simp
  also have "\<dots> \<longleftrightarrow> (\<exists>v\<in>set vs. sq_dist v p < thr * thr)"
    by (simp add: euclid_dist_less_iff[OF assms(2)])
  finally show ?thesis by (simp add: list_ex_iff)
qed

lemma find_degenerate_faces_in_range:
  assumes "faces_in_range mesh"
  shows "find_degenerate_faces mesh =
     Inr (filter (\<lambda>k. degenerate_face (vertices mesh) (faces mesh ! k)) [0 ..< length (faces mesh)])"
proof -
  have "degenerate_loop (vertices mesh) (faces mesh) 0 [] =
      Inr ([] @ map (\<lambda>k. 0 + k)
             (filter (\<lambda>k. degenerate_face (vertices mesh) (faces mesh ! k))
                [0 ..< length (faces mesh)]))"
    by (rule degenerate_loop_in_range) (rule assms[unfolded faces_in_range_def])
  then show ?thesis by (simp add: find_degenerate_faces_def)
qed

lemma length_filter_nth:
  "length (filter (\<lambda>k. P (xs ! k)) [0 ..< length xs]) = length (filter P xs)"
proof -
  have "filter P xs = filter P (map (\<lambda>k. xs ! k) [0 ..< length xs])"
    by (simp add: map_nth)
  also have "\<dots> = map (\<lambda>k. xs ! k) (filter (\<lambda>k. P (xs ! k)) [0 ..< length xs])"
    by (simp add: filter_map o_def)
  finally have "length (filter P xs) =
      length (map (\<lambda>k. xs ! k) (filter (\<lambda>k. P (xs ! k)) [0 ..< length xs]))"
    by (rule arg_cong)
  then show ?thesis by simp
qed

lemma detect_thin_walls_eq:
  assumes "vertices mesh \<noteq> []"
  shows "detect_thin_walls self ev mesh =
     map (\<lambda>p. \<lparr>point = tolist p, thickness = nearest_vertex_distance (vertices mesh) p,
                location = ''surface''\<rparr>)
         (thin_points self ev mesh)"
  by (cases "sample ev mesh 1000")
     (simp_all add: detect_thin_walls_def thin_points_def evaluated_points_def
        thin_walls_loop_eq[OF assms])


lemma validate_mesh_loaded:
  assumes "load_mesh ev file_path = Inr mesh"
    and "run_validation_checks self ev mesh = Inr (errs, warns)"
  shows "validate_mesh self ev file_path fname =
     \<lparr>model_id = uuid4 ev, filename = fname, metrics = compute_metrics mesh,
      errors = errs, warnings = warns, decision = determine_decision errs warns,
      processing_time_ms = elapsed_ms ev, timestamp = utcnow_isoformat ev\<rparr>"
  using assms by (simp add: validate_mesh_def validate_mesh_try_def)

lemma validate_mesh_check_failure:
  assumes "load_mesh ev file_path = Inr mesh"
    and "run_validation_checks self ev mesh = Inl e"
  shows "validate_mesh self ev file_path fname =
     \<lparr>model_id = uuid4 ev,
      filename = fname,
      metrics = \<lparr>triangles = 0, MeshMetrics.vertices = 0, components = 0, bbox_mm = [0, 0, 0],
                 volume_mm3 = None, surface_area_mm2 = None, units = ''mm''\<rparr>,
      errors = [\<lparr>code = DEGENERATE_FACES, message = ''Failed to load mesh: '' @ str_exn e,
                 severity = error, count = None, locations = None\<rparr>],
      warnings = [],
      decision = BLOCK,
      processing_time_ms = elapsed_ms ev,
      timestamp = utcnow_isoformat ev\<rparr>"
  using assms by (simp add: validate_mesh_def validate_mesh_try_def ValidationIssue_new_def)

lemma run_validation_checks_codes:
  assumes "is_watertight mesh = Inr wt" and "is_winding_consistent mesh = Inr wc"
    and "split mesh = Inr k" and "find_degenerate_faces mesh = Inr dg"
    and "run_validation_checks self ev mesh = Inr (errs, warns)"
  shows "map code errs =
           (if \<not> wt then [NOT_WATERTIGHT] else []) @ (if \<not> wc then [NON_MANIFOLD] else [])
           @ (if bbox_too_thin mesh then [SELF_INTERSECTING] else [])
           @ (if dg \<noteq> [] then [DEGENERATE_FACES] else [])"
    and "map code warns =
           (if k > 1 then [MULTIPLE_COMPONENTS] else [])
           @ (if find_duplicate_vertices mesh \<noteq> [] then [DUPLICATE_VERTICES] else [])
           @ (if detect_thin_walls self ev mesh \<noteq> [] then [THIN_WALL] else [])"
    and "map severity errs = map (\<lambda>_. error) errs"
    and "map severity warns = map (\<lambda>_. error) warns"
    and "map count (filter (\<lambda>e. code e = DEGENERATE_FACES) errs) =
           (if dg \<noteq> [] then [Some (int (length dg))] else [])"
    and "map count (filter (\<lambda>e. code e = THIN_WALL) warns) =
           (if detect_thin_walls self ev mesh \<noteq> []
            then [Some (int (length (detect_thin_walls self ev mesh)))] else [])"
    and "map count (filter (\<lambda>e. code e = MULTIPLE_COMPONENTS) warns) =
           (if k > 1 then [Some (int k)] else [])"
proof -
  note r = run_validation_checks_Inr[OF assms(1-4), of self ev]
  from r assms(5) have errs: "errs =
      (if \<not> wt then [ValidationIssue_new NOT_WATERTIGHT
                            ''Mesh is not watertight (has open boundaries)''
                            (map_option int (open_boundaries mesh))] else [])
          @ (if \<not> wc then [ValidationIssue_new NON_MANIFOLD ''Mesh has non-manifold edges'' None]
             else [])
          @ (if bbox_too_thin mesh
             then [ValidationIssue_new SELF_INTERSECTING
                     ''Mesh appears to have self-intersections or is extremely thin'' None]
             else [])
          @ (if dg \<noteq> []
             then [ValidationIssue_new DEGENERATE_FACES
                     (''Found '' @ str_nat (length dg) @ '' degenerate faces'')
                     (Some (int (length dg)))]
             else [])"
    by simp
  from r assms(5) have warns: "warns =
      (if k > 1
           then [ValidationIssue_new MULTIPLE_COMPONENTS
                   (''Mesh has '' @ str_nat k @ '' disconnected components'') (Some (int k))]
           else [])
          @ (if find_duplicate_vertices mesh \<noteq> []
             then [ValidationIssue_new DUPLICATE_VERTICES
                     (''Found '' @ str_nat (length (find_duplicate_vertices mesh))
                        @ '' duplicate vertices'')
                     (Some (int (length (find_duplicate_vertices mesh))))]
             else [])
          @ (if detect_thin_walls self ev mesh \<noteq> []
             then [ValidationIssue_new THIN_WALL
                     (''Detected '' @ str_nat (length (detect_thin_walls self ev mesh))
                        @ '' regions with thickness < ''
                        @ str_float ev (thin_wall_threshold self) @ ''mm'')
                     (Some (int (length (detect_thin_walls self ev mesh))))]
             else [])"
    by simp
  show "map code errs =
           (if \<not> wt then [NOT_WATERTIGHT] else []) @ (if \<not> wc then [NON_MANIFOLD] else [])
           @ (if bbox_too_thin mesh then [SELF_INTERSECTING] else [])
           @ (if dg \<noteq> [] then [DEGENERATE_FACES] else [])"
    unfolding errs by (simp add: ValidationIssue_new_def)
  show "map code warns =
           (if k > 1 then [MULTIPLE_COMPONENTS] else [])
           @ (if find_duplicate_vertices mesh \<noteq> [] then [DUPLICATE_VERTICES] else [])
           @ (if detect_thin_walls self ev mesh \<noteq> [] then [THIN_WALL] else [])"
    unfolding warns by (simp add: ValidationIssue_new_def)
  show "map severity errs = map (\<lambda>_. error) errs"
    unfolding errs by (simp add: ValidationIssue_new_def)
  show "map severity warns = map (\<lambda>_. error) warns"
    unfolding warns by (simp add: ValidationIssue_new_def)
  show "map count (filter (\<lambda>e. code e = DEGENERATE_FACES) errs) =
           (if dg \<noteq> [] then [Some (int (length dg))] else [])"
    unfolding errs by (simp add: ValidationIssue_new_def)
  show "map count (filter (\<lambda>e. code e = THIN_WALL) warns) =
           (if detect_thin_walls self ev mesh \<noteq> []
            then [Some (int (length (detect_thin_walls self ev mesh)))] else [])"
    unfolding warns by (simp add: ValidationIssue_new_def)
  show "map count (filter (\<lambda>e. code e = MULTIPLE_COMPONENTS) warns) =
           (if k > 1 then [Some (int k)] else [])"
    unfolding warns by (simp add: ValidationIssue_new_def)
qed

lemma find_degenerate_faces_length:
  assumes "faces_in_range mesh"
  shows "\<exists>dg. find_degenerate_faces mesh = Inr dg \<and>
           length dg = length (filter (degenerate_face (vertices mesh)) (faces mesh))"
  using find_degenerate_faces_in_range[OF assms]
    length_filter_nth[of "degenerate_face (vertices mesh)" "faces mesh"]
  by simp

lemma filter_empty_length: "xs = [] \<longleftrightarrow> length xs = 0"
  by simp

lemma thin_points_eval:
  assumes "vertices mesh \<noteq> []" and "0 < thin_wall_threshold self"
  shows "thin_points self ev mesh =
     filter (\<lambda>p. list_ex (\<lambda>v. sq_dist v p < thin_wall_threshold self * thin_wall_threshold self)
                           (vertices mesh))
            (evaluated_points ev mesh)"
  unfolding thin_points_def nearest_vertex_distance_less_iff[OF assms] ..

subsection \<open>Facts about the example inputs\<close>

lemma unit_tetra_geometry:
  "faces_in_range unit_tetra"
  "filter (degenerate_face (vertices unit_tetra)) (faces unit_tetra) = []"
  "no_near_duplicates (vertices unit_tetra)"
  "\<not> bbox_too_thin unit_tetra"
  "vertices unit_tetra \<noteq> []"
  by (simp_all add: faces_in_range_def unit_tetra_def degenerate_face_sq sq_cross_def
        no_near_duplicates_sq sq_dist_def bbox_too_thin_def)


lemma two_tetras_geometry:
  "faces_in_range two_tetras"
  "filter (degenerate_face (vertices two_tetras)) (faces two_tetras) = []"
  "no_near_duplicates (vertices two_tetras)"
  "\<not> bbox_too_thin two_tetras"
  "vertices two_tetras \<noteq> []"
  by (simp_all add: faces_in_range_def two_tetras_def degenerate_face_sq sq_cross_def
        no_near_duplicates_sq sq_dist_def bbox_too_thin_def)

lemma find_degenerate_faces_none:
  assumes "faces_in_range mesh"
    and "filter (degenerate_face (vertices mesh)) (faces mesh) = []"
  shows "find_degenerate_faces mesh = Inr []"
  using find_degenerate_faces_length[OF assms(1)] assms(2) by auto



lemma thin_points_no_sample: "thin_points self (example_env l (Inr [])) mesh = []"
  by (simp add: thin_points_def evaluated_points_def example_env_def)

lemma load_mesh_example:
  assumes "vertices mesh \<noteq> []"
  shows "load_mesh (example_env (Inr (Single (Mesh mesh))) s) file_path = Inr mesh"
  using assms by (simp add: load_mesh_def load_mesh_try_def example_env_def)



lemma evaluated_points_near:
  "evaluated_points (example_env l (Inr near_sample)) mesh = replicate 10 (1 / 10, 1 / 10, 0)"
  by (simp add: evaluated_points_def example_env_def near_sample_def)

lemma evaluated_points_far:
  "evaluated_points (example_env l (Inr far_sample)) mesh = replicate 10 (1 / 3, 1 / 3, 1 / 3)"
  by (simp add: evaluated_points_def example_env_def far_sample_def)


lemma thin_points_unit_tetra_near_sample:
  "thin_points (MeshValidator_init None None None)
     (example_env l (Inr near_sample)) unit_tetra = replicate 10 (1 / 10, 1 / 10, 0)"
proof -
  have v: "vertices unit_tetra \<noteq> []" by (rule unit_tetra_geometry)
  have t: "0 < thin_wall_threshold (MeshValidator_init None None None)"
    by (simp add: MeshValidator_init_def)
  show ?thesis
    unfolding thin_points_eval[OF v t] evaluated_points_near
    by (simp add: unit_tetra_def MeshValidator_init_def sq_dist_def power2_eq_square)
qed

lemma thin_points_unit_tetra_far_sample:
  "thin_points (MeshValidator_init None None None)
     (example_env l (Inr far_sample)) unit_tetra = []"
proof -
  have v: "vertices unit_tetra \<noteq> []" by (rule unit_tetra_geometry)
  have t: "0 < thin_wall_threshold (MeshValidator_init None None None)"
    by (simp add: MeshValidator_init_def)
  show ?thesis
    unfolding thin_points_eval[OF v t] evaluated_points_far
    by (simp add: unit_tetra_def MeshValidator_init_def sq_dist_def power2_eq_square)
qed




lemma clean_mesh_checks:
  assumes "is_watertight mesh = Inr True" and "is_winding_consistent mesh = Inr True"
    and "split mesh = Inr 1" and "faces_in_range mesh"
    and "no_near_duplicates (vertices mesh)"
    and "filter (degenerate_face (vertices mesh)) (faces mesh) = []"
    and "\<not> bbox_too_thin mesh"
    and "vertices mesh \<noteq> []"
  shows "\<exists>warns. run_validation_checks self ev mesh = Inr ([], warns) \<and>
           map code warns = (if thin_points self ev mesh = [] then [] else [THIN_WALL])"
proof -
  have dg: "find_degenerate_faces mesh = Inr []"
    by (rule find_degenerate_faces_none[OF assms(4) assms(6)])
  have dup: "find_duplicate_vertices mesh = []"
    using assms(5) by (simp add: find_duplicate_vertices_empty_iff)
  have thin: "detect_thin_walls self ev mesh = [] \<longleftrightarrow> thin_points self ev mesh = []"
    unfolding detect_thin_walls_eq[OF assms(8)] by simp
  from run_validation_checks_Inr[OF assms(1) assms(2) assms(3) dg, of self ev]
  obtain warns where run: "run_validation_checks self ev mesh = Inr ([], warns)"
    using assms(7) by simp
  from run_validation_checks_codes(2)[OF assms(1) assms(2) assms(3) dg run]
  have "map code warns = (if thin_points self ev mesh = [] then [] else [THIN_WALL])"
    using dup thin by simp
  with run show ?thesis by blast
qed








text \<open>
  Claim C9 fails on the code: the issue that the Multiple-components check puts into the
  warnings list is built without a severity and so carries the default \<open>error\<close>.
  On two disjoint tetrahedra the report has no error, one warning coded
  MULTIPLE_COMPONENTS, and that warning has severity \<open>error\<close>.
\<close>

theorem warning_issue_has_error_severity:
  "map code (warnings (validate_mesh (MeshValidator_init None None None)
        (example_env (Inr (Single (Mesh two_tetras))) (Inr [])) ''two.stl'' ''two.stl''))
     = [MULTIPLE_COMPONENTS]
   \<and> map severity (warnings (validate_mesh (MeshValidator_init None None None)
        (example_env (Inr (Single (Mesh two_tetras))) (Inr [])) ''two.stl'' ''two.stl''))
     = [error]
   \<and> errors (validate_mesh (MeshValidator_init None None None)
        (example_env (Inr (Single (Mesh two_tetras))) (Inr [])) ''two.stl'' ''two.stl'') = []"
proof -
  let ?V = "MeshValidator_init None None None"
  let ?E = "example_env (Inr (Single (Mesh two_tetras))) (Inr [])"
  have a: "is_watertight two_tetras = Inr True" "is_winding_consistent two_tetras = Inr True"
    "split two_tetras = Inr 2"
    by (simp_all add: two_tetras_def)
  have l: "load_mesh ?E ''two.stl'' = Inr two_tetras"
    by (rule load_mesh_example) (rule two_tetras_geometry)
  have dg: "find_degenerate_faces two_tetras = Inr []"
    by (rule find_degenerate_faces_none[OF two_tetras_geometry(1) two_tetras_geometry(2)])
  have dup: "find_duplicate_vertices two_tetras = []"
    using two_tetras_geometry(3) by (simp add: find_duplicate_vertices_empty_iff)
  have thin: "detect_thin_walls ?V ?E two_tetras = []"
    unfolding detect_thin_walls_eq[OF two_tetras_geometry(5)] thin_points_no_sample by simp
  from run_validation_checks_Inr[OF a dg, of ?V ?E]
  obtain errs warns where run: "run_validation_checks ?V ?E two_tetras = Inr (errs, warns)"
    by simp
  note c = run_validation_checks_codes[OF a dg run]
  from c(1) two_tetras_geometry(4) have e: "errs = []" by simp
  from c(2) dup thin have w: "map code warns = [MULTIPLE_COMPONENTS]" by simp
  then obtain x where x: "warns = [x]" by auto
  from c(4) x have s: "map severity warns = [error]" by simp
  show ?thesis
    unfolding validate_mesh_loaded[OF l run] using e w s by simp
qed

lemma error_codes_shape:
  "subseq ((if a then [NOT_WATERTIGHT] else []) @ (if b then [NON_MANIFOLD] else [])
           @ (if c then [SELF_INTERSECTING] else []) @ (if d then [DEGENERATE_FACES] else []))
     [NOT_WATERTIGHT, NON_MANIFOLD, SELF_INTERSECTING, DEGENERATE_FACES]"
  by (cases a; cases b; cases c; cases d) simp_all

lemma warning_codes_shape:
  "subseq ((if a then [MULTIPLE_COMPONENTS] else []) @ (if b then [DUPLICATE_VERTICES] else [])
           @ (if c then [THIN_WALL] else []))
     [MULTIPLE_COMPONENTS, DUPLICATE_VERTICES, THIN_WALL]"
  by (cases a; cases b; cases c) simp_all

lemma codes_distinct:
  "distinct (((if a then [NOT_WATERTIGHT] else []) @ (if b then [NON_MANIFOLD] else [])
              @ (if c then [SELF_INTERSECTING] else []) @ (if d then [DEGENERATE_FACES] else []))
             @ ((if e then [MULTIPLE_COMPONENTS] else []) @ (if f then [DUPLICATE_VERTICES] else [])
              @ (if g then [THIN_WALL] else [])))"
  by simp

lemma codes_not_inverted_normals:
  "INVERTED_NORMALS \<notin> set (((if a then [NOT_WATERTIGHT] else []) @ (if b then [NON_MANIFOLD] else [])
              @ (if c then [SELF_INTERSECTING] else []) @ (if d then [DEGENERATE_FACES] else []))
             @ ((if e then [MULTIPLE_COMPONENTS] else []) @ (if f then [DUPLICATE_VERTICES] else [])
              @ (if g then [THIN_WALL] else [])))"
  by simp

text \<open>
  Claim C10, amended: in every run whose input parses, the codes of the errors list form
  a subsequence of NOT_WATERTIGHT, NON_MANIFOLD, SELF_INTERSECTING, DEGENERATE_FACES and
  the codes of the warnings list a subsequence of MULTIPLE_COMPONENTS,
  DUPLICATE_VERTICES, THIN_WALL; no code occurs twice across both lists;
  INVERTED_NORMALS never occurs.  When the Check Engine completes, the lists of the report
  are those it returns and each code is present exactly when its check is triggered.
  When the Check Engine raises, the errors list is the single failure issue coded
  DEGENERATE_FACES and the warnings list is empty.
\<close>

theorem issue_codes_order:
  assumes "load_mesh ev file_path = Inr mesh"
  shows "subseq (map code (errors (validate_mesh self ev file_path fname)))
           [NOT_WATERTIGHT, NON_MANIFOLD, SELF_INTERSECTING, DEGENERATE_FACES]
       \<and> subseq (map code (warnings (validate_mesh self ev file_path fname)))
           [MULTIPLE_COMPONENTS, DUPLICATE_VERTICES, THIN_WALL]
       \<and> distinct (map code (errors (validate_mesh self ev file_path fname)
                              @ warnings (validate_mesh self ev file_path fname)))
       \<and> INVERTED_NORMALS \<notin> set (map code (errors (validate_mesh self ev file_path fname)
                                            @ warnings (validate_mesh self ev file_path fname)))
       \<and> (\<forall>errs warns. run_validation_checks self ev mesh = Inr (errs, warns) \<longrightarrow>
            errors (validate_mesh self ev file_path fname) = errs
          \<and> warnings (validate_mesh self ev file_path fname) = warns
          \<and> (NOT_WATERTIGHT \<in> set (map code errs) \<longleftrightarrow> is_watertight mesh = Inr False)
          \<and> (NON_MANIFOLD \<in> set (map code errs) \<longleftrightarrow> is_winding_consistent mesh = Inr False)
          \<and> (SELF_INTERSECTING \<in> set (map code errs) \<longleftrightarrow> bbox_too_thin mesh)
          \<and> (DEGENERATE_FACES \<in> set (map code errs) \<longleftrightarrow> find_degenerate_faces mesh \<noteq> Inr [])
          \<and> (MULTIPLE_COMPONENTS \<in> set (map code warns) \<longleftrightarrow> (\<exists>k>1. split mesh = Inr k))
          \<and> (DUPLICATE_VERTICES \<in> set (map code warns) \<longleftrightarrow> \<not> no_near_duplicates (vertices mesh))
          \<and> (THIN_WALL \<in> set (map code warns) \<longleftrightarrow> thin_points self ev mesh \<noteq> []))
       \<and> (\<forall>e. run_validation_checks self ev mesh = Inl e \<longrightarrow>
            map code (errors (validate_mesh self ev file_path fname)) = [DEGENERATE_FACES]
          \<and> warnings (validate_mesh self ev file_path fname) = [])"
proof (cases "run_validation_checks self ev mesh")
  case (Inl e)
  note r = validate_mesh_check_failure[OF assms Inl, of fname]
  show ?thesis unfolding r using Inl by simp
next
  case (Inr p)
  obtain errs warns where p: "p = (errs, warns)" by (cases p)
  from Inr p have run: "run_validation_checks self ev mesh = Inr (errs, warns)" by simp
  note r = validate_mesh_loaded[OF assms run, of fname]
  from run_validation_checks_Inr_D[OF run] obtain wt wc k dg where
    f: "is_watertight mesh = Inr wt" "is_winding_consistent mesh = Inr wc" "split mesh = Inr k"
       "find_degenerate_faces mesh = Inr dg" by blast
  note c = run_validation_checks_codes[OF f run]
  have v: "vertices mesh \<noteq> []" by (rule load_mesh_vertices[OF assms])
  have ne: "detect_thin_walls self ev mesh \<noteq> [] \<longleftrightarrow> thin_points self ev mesh \<noteq> []"
    unfolding detect_thin_walls_eq[OF v] by simp
  have s1: "subseq (map code errs)
              [NOT_WATERTIGHT, NON_MANIFOLD, SELF_INTERSECTING, DEGENERATE_FACES]"
    unfolding c(1) by (rule error_codes_shape)
  have s2: "subseq (map code warns) [MULTIPLE_COMPONENTS, DUPLICATE_VERTICES, THIN_WALL]"
    unfolding c(2) by (rule warning_codes_shape)
  have d: "distinct (map code (errs @ warns))"
    unfolding map_append c(1) c(2) by (rule codes_distinct)
  have i: "INVERTED_NORMALS \<notin> set (map code (errs @ warns))"
    unfolding map_append c(1) c(2) by (rule codes_not_inverted_normals)
  have t1: "NOT_WATERTIGHT \<in> set (map code errs) \<longleftrightarrow> is_watertight mesh = Inr False"
    unfolding c(1) f(1) by simp
  have t2: "NON_MANIFOLD \<in> set (map code errs) \<longleftrightarrow> is_winding_consistent mesh = Inr False"
    unfolding c(1) f(2) by simp
  have t3: "SELF_INTERSECTING \<in> set (map code errs) \<longleftrightarrow> bbox_too_thin mesh"
    unfolding c(1) by simp
  have t4: "DEGENERATE_FACES \<in> set (map code errs) \<longleftrightarrow> find_degenerate_faces mesh \<noteq> Inr []"
    unfolding c(1) f(4) by simp
  have t5: "MULTIPLE_COMPONENTS \<in> set (map code warns) \<longleftrightarrow> (\<exists>k>1. split mesh = Inr k)"
    unfolding c(2) f(3) by simp
  have t6: "DUPLICATE_VERTICES \<in> set (map code warns) \<longleftrightarrow> \<not> no_near_duplicates (vertices mesh)"
    unfolding c(2) find_duplicate_vertices_empty_iff[symmetric] by simp
  have t7: "THIN_WALL \<in> set (map code warns) \<longleftrightarrow> thin_points self ev mesh \<noteq> []"
    unfolding c(2) ne[symmetric] by simp
  have q: "\<forall>errs' warns'. run_validation_checks self ev mesh = Inr (errs', warns') \<longrightarrow>
             errs' = errs \<and> warns' = warns"
    unfolding run by simp
  have e: "errors (validate_mesh self ev file_path fname) = errs"
    and w: "warnings (validate_mesh self ev file_path fname) = warns"
    unfolding r by simp_all
  have q': "\<forall>x. run_validation_checks self ev mesh \<noteq> Inl x"
    unfolding run by simp
  show ?thesis
    unfolding e w using s1 s2 d i t1 t2 t3 t4 t5 t6 t7 q q' by blast
qed

text \<open>
  Claim C10, as stated, fails in its clause that a code is present only when triggered.
  An open unit tetrahedron parses and has no degenerate face; when reading its winding
  consistency raises, the errors list of the report is the single issue DEGENERATE_FACES:
  a code whose check is not triggered, while the triggered NOT_WATERTIGHT is absent.
\<close>

theorem issue_code_without_trigger_counterexample:
  "load_mesh (example_env (Inr (Single (Mesh (unit_tetra\<lparr>is_watertight := Inr False,
        is_winding_consistent := Inl (ExternalError ''winding unavailable'')\<rparr>))))
        (Inr far_sample)) ''open.stl''
     = Inr (unit_tetra\<lparr>is_watertight := Inr False,
              is_winding_consistent := Inl (ExternalError ''winding unavailable'')\<rparr>)
   \<and> is_watertight (unit_tetra\<lparr>is_watertight := Inr False,
        is_winding_consistent := Inl (ExternalError ''winding unavailable'')\<rparr>) = Inr False
   \<and> find_degenerate_faces (unit_tetra\<lparr>is_watertight := Inr False,
        is_winding_consistent := Inl (ExternalError ''winding unavailable'')\<rparr>) = Inr []
   \<and> map code (errors (validate_mesh (MeshValidator_init None None None)
        (example_env (Inr (Single (Mesh (unit_tetra\<lparr>is_watertight := Inr False,
           is_winding_consistent := Inl (ExternalError ''winding unavailable'')\<rparr>))))
           (Inr far_sample)) ''open.stl'' ''open.stl'')) = [DEGENERATE_FACES]"
proof -
  let ?x = "ExternalError ''winding unavailable''"
  let ?V = "MeshValidator_init None None None"
  let ?M = "unit_tetra\<lparr>is_watertight := Inr False, is_winding_consistent := Inl ?x\<rparr>"
  let ?E = "example_env (Inr (Single (Mesh ?M))) (Inr far_sample)"
  have v: "vertices ?M \<noteq> []" by (simp add: unit_tetra_def)
  have l: "load_mesh ?E ''open.stl'' = Inr ?M" by (rule load_mesh_example[OF v])
  have a: "is_watertight ?M = Inr False" "is_winding_consistent ?M = Inl ?x"
    by (simp_all add: unit_tetra_def)
  have g: "vertices ?M = vertices unit_tetra" "faces ?M = faces unit_tetra" by simp_all
  have fr: "faces_in_range ?M"
    using unit_tetra_geometry(1) unfolding faces_in_range_def g .
  have dg: "find_degenerate_faces ?M = Inr []"
    by (rule find_degenerate_faces_none[OF fr]) (simp only: g unit_tetra_geometry(2))
  have run: "run_validation_checks ?V ?E ?M = Inl ?x"
    using a unfolding run_validation_checks_Inl_iff by blast
  have e: "map code (errors (validate_mesh ?V ?E ''open.stl'' ''open.stl'')) = [DEGENERATE_FACES]"
    unfolding validate_mesh_check_failure[OF l run] by simp
  show ?thesis
    by (intro conjI) (fact l a(1) dg e)+
qed

text \<open>
  Claim C10, witness: two disjoint tetrahedra reported as inconsistently wound.
\<close>

theorem issue_codes_order_witness:
  "load_mesh (example_env (Inr (Single (Mesh (two_tetras\<lparr>is_winding_consistent := Inr False\<rparr>))))
               (Inr [])) ''two.stl''
     = Inr (two_tetras\<lparr>is_winding_consistent := Inr False\<rparr>)
   \<and> map code (errors (validate_mesh (MeshValidator_init None None None)
        (example_env (Inr (Single (Mesh (two_tetras\<lparr>is_winding_consistent := Inr False\<rparr>))))
           (Inr [])) ''two.stl'' ''two.stl'')) = [NON_MANIFOLD]
   \<and> map code (warnings (validate_mesh (MeshValidator_init None None None)
        (example_env (Inr (Single (Mesh (two_tetras\<lparr>is_winding_consistent := Inr False\<rparr>))))
           (Inr [])) ''two.stl'' ''two.stl'')) = [MULTIPLE_COMPONENTS]
   \<and> is_winding_consistent (two_tetras\<lparr>is_winding_consistent := Inr False\<rparr>) = Inr False
   \<and> split (two_tetras\<lparr>is_winding_consistent := Inr False\<rparr>) = Inr 2"
proof -
  let ?M = "two_tetras\<lparr>is_winding_consistent := Inr False\<rparr>"
  let ?V = "MeshValidator_init None None None"
  let ?E = "example_env (Inr (Single (Mesh ?M))) (Inr [])"
  have a: "is_watertight ?M = Inr True" "is_winding_consistent ?M = Inr False"
    "split ?M = Inr 2"
    by (simp_all add: two_tetras_def)
  have g: "vertices ?M = vertices two_tetras" "faces ?M = faces two_tetras" by simp_all
  have fr: "faces_in_range ?M"
    using two_tetras_geometry(1) unfolding faces_in_range_def g .
  have v: "vertices ?M \<noteq> []" unfolding g by (rule two_tetras_geometry(5))
  have l: "load_mesh ?E ''two.stl'' = Inr ?M" by (rule load_mesh_example[OF v])
  have dg: "find_degenerate_faces ?M = Inr []"
    by (rule find_degenerate_faces_none[OF fr]) (simp only: g two_tetras_geometry(2))
  have dup: "find_duplicate_vertices ?M = []"
    unfolding find_duplicate_vertices_empty_iff g by (rule two_tetras_geometry(3))
  have nb: "\<not> bbox_too_thin ?M" by (simp add: bbox_too_thin_def two_tetras_def)
  have thin: "detect_thin_walls ?V ?E ?M = []"
    unfolding detect_thin_walls_eq[OF v] thin_points_no_sample by simp
  from run_validation_checks_Inr[OF a dg, of ?V ?E]
  obtain errs warns where run: "run_validation_checks ?V ?E ?M = Inr (errs, warns)"
    by simp
  note c = run_validation_checks_codes[OF a dg run]
  from c(1) nb have e: "map code errs = [NON_MANIFOLD]" by simp
  from c(2) dup thin have w: "map code warns = [MULTIPLE_COMPONENTS]" by simp
  note th = issue_codes_order[OF l, of ?V "''two.stl''"]
  from th run have "errors (validate_mesh ?V ?E ''two.stl'' ''two.stl'') = errs"
    and "warnings (validate_mesh ?V ?E ''two.stl'' ''two.stl'') = warns"
    by blast+
  with e w l a show ?thesis by simp
qed

lemma detect_thin_walls_sampler_fails:
  assumes "sample ev mesh 1000 = Inl x"
  shows "detect_thin_walls self ev mesh = []"
  using assms by (simp add: detect_thin_walls_def)

lemma bbox_not_thin_without_bounds:
  assumes "(\<exists>x. bounds mesh = Inl x) \<or> bounds mesh = Inr None"
  shows "\<not> bbox_too_thin mesh"
proof -
  from assms consider (a) x where "bounds mesh = Inl x" | (b) "bounds mesh = Inr None"
    by blast
  then show ?thesis by cases (simp_all add: bbox_too_thin_def)
qed

text \<open>
  Claim C4, as stated, fails: reading the component split stands outside any
  \<^verbatim>\<open>try\<close>.  When it raises on an open unit tetrahedron, the Check Engine raises, the
  NOT_WATERTIGHT finding of the earlier check is lost and the remaining checks do not
  run: the report is the failure report.
\<close>

theorem check_failure_not_swallowed_counterexample:
  "load_mesh (example_env (Inr (Single (Mesh (unit_tetra\<lparr>is_watertight := Inr False,
        split := Inl (ExternalError ''no graph engines available'')\<rparr>)))) (Inr far_sample)) ''t.stl''
     = Inr (unit_tetra\<lparr>is_watertight := Inr False,
              split := Inl (ExternalError ''no graph engines available'')\<rparr>)
   \<and> run_validation_checks (MeshValidator_init None None None)
        (example_env (Inr (Single (Mesh (unit_tetra\<lparr>is_watertight := Inr False,
           split := Inl (ExternalError ''no graph engines available'')\<rparr>)))) (Inr far_sample))
        (unit_tetra\<lparr>is_watertight := Inr False,
           split := Inl (ExternalError ''no graph engines available'')\<rparr>)
     = Inl (ExternalError ''no graph engines available'')
   \<and> validate_mesh (MeshValidator_init None None None)
        (example_env (Inr (Single (Mesh (unit_tetra\<lparr>is_watertight := Inr False,
           split := Inl (ExternalError ''no graph engines available'')\<rparr>)))) (Inr far_sample))
        ''t.stl'' ''t.stl''
     = \<lparr>model_id = ''0b5c1f9e-7a64-4f0e-9d0a-3c1a2b4d5e6f'',
        filename = ''t.stl'',
        metrics = \<lparr>triangles = 0, MeshMetrics.vertices = 0, components = 0, bbox_mm = [0, 0, 0],
                   volume_mm3 = None, surface_area_mm2 = None, units = ''mm''\<rparr>,
        errors = [\<lparr>code = DEGENERATE_FACES,
                   message = ''Failed to load mesh: no graph engines available'',
                   severity = error, count = None, locations = None\<rparr>],
        warnings = [],
        decision = BLOCK,
        processing_time_ms = 12,
        timestamp = ''2024-05-01T10:00:00''\<rparr>"
proof -
  let ?M = "unit_tetra\<lparr>is_watertight := Inr False,
              split := Inl (ExternalError ''no graph engines available'')\<rparr>"
  let ?V = "MeshValidator_init None None None"
  let ?E = "example_env (Inr (Single (Mesh ?M))) (Inr far_sample)"
  have v: "vertices ?M \<noteq> []" by (simp add: unit_tetra_def)
  have l: "load_mesh ?E ''t.stl'' = Inr ?M" by (rule load_mesh_example[OF v])
  have a: "is_watertight ?M = Inr False" "is_winding_consistent ?M = Inr True"
    "split ?M = Inl (ExternalError ''no graph engines available'')"
    by (simp_all add: unit_tetra_def)
  have run: "run_validation_checks ?V ?E ?M = Inl (ExternalError ''no graph engines available'')"
    using a unfolding run_validation_checks_Inl_iff by blast
  from validate_mesh_check_failure[OF l run, of "''t.stl''"] l run
  show ?thesis by (simp add: example_env_def)
qed

text \<open>
  Claim C4, amended: the Check Engine raises exactly when reading the watertightness, the
  winding consistency or the component split raises, or the degenerate-face scan raises.
  A failure of the bounding-box read or of the surface sampler never makes it raise and
  contributes no SELF_INTERSECTING, respectively no THIN_WALL, issue.  When the Check
  Engine raises on a parsed mesh, \<open>validate_mesh\<close> still returns a report: the failure
  report, with decision BLOCK, zero metrics, no warning and the single error
  DEGENERATE_FACES carrying the message of the exception.
\<close>

theorem check_failure_policy:
  "(run_validation_checks self ev mesh = Inl e \<longleftrightarrow>
       is_watertight mesh = Inl e
     \<or> (\<exists>wt. is_watertight mesh = Inr wt \<and> is_winding_consistent mesh = Inl e)
     \<or> (\<exists>wt wc. is_watertight mesh = Inr wt \<and> is_winding_consistent mesh = Inr wc \<and>
           split mesh = Inl e)
     \<or> (\<exists>wt wc k. is_watertight mesh = Inr wt \<and> is_winding_consistent mesh = Inr wc \<and>
           split mesh = Inr k \<and> find_degenerate_faces mesh = Inl e))
   \<and> (\<forall>errs warns. run_validation_checks self ev mesh = Inr (errs, warns) \<longrightarrow>
         ((\<exists>x. bounds mesh = Inl x) \<or> bounds mesh = Inr None \<longrightarrow>
            SELF_INTERSECTING \<notin> set (map code errs))
       \<and> ((\<exists>x. sample ev mesh 1000 = Inl x) \<longrightarrow> THIN_WALL \<notin> set (map code warns)))
   \<and> (load_mesh ev file_path = Inr mesh \<and> run_validation_checks self ev mesh = Inl e \<longrightarrow>
         validate_mesh self ev file_path fname =
           \<lparr>model_id = uuid4 ev,
            filename = fname,
            metrics = \<lparr>triangles = 0, MeshMetrics.vertices = 0, components = 0,
                       bbox_mm = [0, 0, 0], volume_mm3 = None, surface_area_mm2 = None,
                       units = ''mm''\<rparr>,
            errors = [\<lparr>code = DEGENERATE_FACES,
                       message = ''Failed to load mesh: '' @ str_exn e,
                       severity = error, count = None, locations = None\<rparr>],
            warnings = [],
            decision = BLOCK,
            processing_time_ms = elapsed_ms ev,
            timestamp = utcnow_isoformat ev\<rparr>)"
proof -
  have swallowed: "(((\<exists>x. bounds mesh = Inl x) \<or> bounds mesh = Inr None) \<longrightarrow>
            SELF_INTERSECTING \<notin> set (map code errs))
       \<and> ((\<exists>x. sample ev mesh 1000 = Inl x) \<longrightarrow> THIN_WALL \<notin> set (map code warns))"
    if run: "run_validation_checks self ev mesh = Inr (errs, warns)" for errs warns
  proof -
    from run_validation_checks_Inr_D[OF run] obtain wt wc k dg where
      f: "is_watertight mesh = Inr wt" "is_winding_consistent mesh = Inr wc" "split mesh = Inr k"
         "find_degenerate_faces mesh = Inr dg" by blast
    note c = run_validation_checks_codes[OF f run]
    have "SELF_INTERSECTING \<notin> set (map code errs)"
      if "(\<exists>x. bounds mesh = Inl x) \<or> bounds mesh = Inr None"
      unfolding c(1) using bbox_not_thin_without_bounds[OF that] by simp
    moreover have "THIN_WALL \<notin> set (map code warns)" if "\<exists>x. sample ev mesh 1000 = Inl x"
    proof -
      from that obtain x where "sample ev mesh 1000 = Inl x" ..
      from detect_thin_walls_sampler_fails[OF this, of self] show ?thesis
        unfolding c(2) by simp
    qed
    ultimately show ?thesis by blast
  qed
  have report: "validate_mesh self ev file_path fname =
           \<lparr>model_id = uuid4 ev,
            filename = fname,
            metrics = \<lparr>triangles = 0, MeshMetrics.vertices = 0, components = 0,
                       bbox_mm = [0, 0, 0], volume_mm3 = None, surface_area_mm2 = None,
                       units = ''mm''\<rparr>,
            errors = [\<lparr>code = DEGENERATE_FACES,
                       message = ''Failed to load mesh: '' @ str_exn e,
                       severity = error, count = None, locations = None\<rparr>],
            warnings = [],
            decision = BLOCK,
            processing_time_ms = elapsed_ms ev,
            timestamp = utcnow_isoformat ev\<rparr>"
    if "load_mesh ev file_path = Inr mesh \<and> run_validation_checks self ev mesh = Inl e"
    using that validate_mesh_check_failure[of ev file_path mesh self e fname] by blast
  from run_validation_checks_Inl_iff[of self ev mesh e] swallowed report
  show ?thesis by blast
qed

text \<open>
  Claim C4, witness: a mesh whose bounds and sampler fail (the checks complete without
  SELF_INTERSECTING and THIN_WALL) and a mesh whose component split fails (the failure
  report).
\<close>

theorem check_failure_policy_witness:
  "(\<exists>errs warns.
      run_validation_checks (MeshValidator_init None None None)
        (example_env (Inl (ValueError [])) (Inl (ExternalError ''sampling failed'')))
        (unit_tetra\<lparr>bounds := Inl (ExternalError ''bounds unavailable'')\<rparr>) = Inr (errs, warns)
      \<and> SELF_INTERSECTING \<notin> set (map code errs) \<and> THIN_WALL \<notin> set (map code warns))
   \<and> bounds (unit_tetra\<lparr>bounds := Inl (ExternalError ''bounds unavailable'')\<rparr>)
       = Inl (ExternalError ''bounds unavailable'')
   \<and> sample (example_env (Inl (ValueError [])) (Inl (ExternalError ''sampling failed'')))
        (unit_tetra\<lparr>bounds := Inl (ExternalError ''bounds unavailable'')\<rparr>) 1000
       = Inl (ExternalError ''sampling failed'')
   \<and> load_mesh (example_env (Inr (Single (Mesh (unit_tetra\<lparr>split := Inl (ExternalError
        ''no graph engines available'')\<rparr>)))) (Inr far_sample)) ''t.stl''
       = Inr (unit_tetra\<lparr>split := Inl (ExternalError ''no graph engines available'')\<rparr>)
   \<and> run_validation_checks (MeshValidator_init None None None)
        (example_env (Inr (Single (Mesh (unit_tetra\<lparr>split := Inl (ExternalError
           ''no graph engines available'')\<rparr>)))) (Inr far_sample))
        (unit_tetra\<lparr>split := Inl (ExternalError ''no graph engines available'')\<rparr>)
       = Inl (ExternalError ''no graph engines available'')
   \<and> decision (validate_mesh (MeshValidator_init None None None)
        (example_env (Inr (Single (Mesh (unit_tetra\<lparr>split := Inl (ExternalError
           ''no graph engines available'')\<rparr>)))) (Inr far_sample)) ''t.stl'' ''t.stl'') = BLOCK"
proof -
  let ?V = "MeshValidator_init None None None"
  let ?M1 = "unit_tetra\<lparr>bounds := Inl (ExternalError ''bounds unavailable'')\<rparr>"
  let ?E1 = "example_env (Inl (ValueError [])) (Inl (ExternalError ''sampling failed''))"
  let ?M2 = "unit_tetra\<lparr>split := Inl (ExternalError ''no graph engines available'')\<rparr>"
  let ?E2 = "example_env (Inr (Single (Mesh ?M2))) (Inr far_sample)"
  let ?x = "ExternalError ''no graph engines available''"
  have a1: "is_watertight ?M1 = Inr True" "is_winding_consistent ?M1 = Inr True"
    "split ?M1 = Inr 1"
    by (simp_all add: unit_tetra_def)
  have g1: "vertices ?M1 = vertices unit_tetra" "faces ?M1 = faces unit_tetra" by simp_all
  have fr1: "faces_in_range ?M1"
    using unit_tetra_geometry(1) unfolding faces_in_range_def g1 .
  have dg1: "find_degenerate_faces ?M1 = Inr []"
    by (rule find_degenerate_faces_none[OF fr1]) (simp only: g1 unit_tetra_geometry(2))
  from run_validation_checks_Inr[OF a1 dg1, of ?V ?E1]
  obtain errs warns where run1: "run_validation_checks ?V ?E1 ?M1 = Inr (errs, warns)"
    by simp
  have b1: "bounds ?M1 = Inl (ExternalError ''bounds unavailable'')" by simp
  have s1: "sample ?E1 ?M1 1000 = Inl (ExternalError ''sampling failed'')"
    by (simp add: example_env_def)
  note th1 = check_failure_policy[of ?V ?E1 ?M1 ?x "''t.stl''" "''t.stl''"]
  from th1 run1 b1 s1
  have n1: "SELF_INTERSECTING \<notin> set (map code errs) \<and> THIN_WALL \<notin> set (map code warns)"
    by blast
  have first: "\<exists>errs warns. run_validation_checks ?V ?E1 ?M1 = Inr (errs, warns)
      \<and> SELF_INTERSECTING \<notin> set (map code errs) \<and> THIN_WALL \<notin> set (map code warns)"
    using run1 n1 by blast
  have v2: "vertices ?M2 \<noteq> []" by (simp add: unit_tetra_def)
  have l2: "load_mesh ?E2 ''t.stl'' = Inr ?M2" by (rule load_mesh_example[OF v2])
  have a2: "is_watertight ?M2 = Inr True" "is_winding_consistent ?M2 = Inr True"
    "split ?M2 = Inl ?x"
    by (simp_all add: unit_tetra_def)
  note th2 = check_failure_policy[of ?V ?E2 ?M2 ?x "''t.stl''" "''t.stl''"]
  from th2 a2 have run2: "run_validation_checks ?V ?E2 ?M2 = Inl ?x" by blast
  from th2 l2 run2 have d2: "decision (validate_mesh ?V ?E2 ''t.stl'' ''t.stl'') = BLOCK"
    by simp
  from first b1 s1 l2 run2 d2 show ?thesis by blast
qed

lemma load_mesh_same_loader:
  assumes "load ev' = load ev"
  shows "load_mesh ev' file_path = load_mesh ev file_path"
  by (simp add: load_mesh_def load_mesh_try_def assms)

lemma validate_mesh_load_failure:
  assumes "load_mesh ev file_path = Inl e"
  shows "validate_mesh self ev file_path fname =
     \<lparr>model_id = uuid4 ev,
      filename = fname,
      metrics = \<lparr>triangles = 0, MeshMetrics.vertices = 0, components = 0, bbox_mm = [0, 0, 0],
                 volume_mm3 = None, surface_area_mm2 = None, units = ''mm''\<rparr>,
      errors = [\<lparr>code = DEGENERATE_FACES, message = ''Failed to load mesh: '' @ str_exn e,
                 severity = error, count = None, locations = None\<rparr>],
      warnings = [],
      decision = BLOCK,
      processing_time_ms = elapsed_ms ev,
      timestamp = utcnow_isoformat ev\<rparr>"
  using assms by (simp add: validate_mesh_def validate_mesh_try_def ValidationIssue_new_def)

lemma detect_thin_walls_evaluated:
  "detect_thin_walls self ev mesh =
     thin_walls_loop (thin_wall_threshold self) (vertices mesh) (evaluated_points ev mesh) []"
  by (cases "sample ev mesh 1000") (simp_all add: detect_thin_walls_def evaluated_points_def)

lemma run_validation_checks_rerun:
  assumes "is_watertight mesh = Inr wt" and "is_winding_consistent mesh = Inr wc"
    and "split mesh = Inr k" and "find_degenerate_faces mesh = Inr dg"
  shows "fst (projr (run_validation_checks self ev' mesh))
           = fst (projr (run_validation_checks self ev mesh))"
    and "filter (\<lambda>w. code w \<noteq> THIN_WALL) (snd (projr (run_validation_checks self ev' mesh)))
           = filter (\<lambda>w. code w \<noteq> THIN_WALL) (snd (projr (run_validation_checks self ev mesh)))"
    and "detect_thin_walls self ev' mesh = detect_thin_walls self ev mesh \<Longrightarrow>
         str_float ev' = str_float ev \<Longrightarrow>
         run_validation_checks self ev' mesh = run_validation_checks self ev mesh"
  unfolding run_validation_checks_Inr[OF assms]
  by (simp_all add: ValidationIssue_new_def)

text \<open>
  Claim C5, as stated, fails: the surface sampler draws random points, so two runs on the
  same loaded mesh may evaluate different points.  On the unit tetrahedron a run whose
  sampler returns \<open>near_sample\<close> warns THIN_WALL and decides ALLOW_WITH_WARNINGS, a run
  whose sampler returns \<open>far_sample\<close> has no warning and decides ALLOW.
\<close>

theorem rerun_differs_counterexample:
  "load (example_env (Inr (Single (Mesh unit_tetra))) (Inr near_sample)) ''t.stl''
     = load (example_env (Inr (Single (Mesh unit_tetra))) (Inr far_sample)) ''t.stl''
   \<and> length near_sample = 1000
   \<and> length far_sample = 1000
   \<and> map code (warnings (validate_mesh (MeshValidator_init None None None)
        (example_env (Inr (Single (Mesh unit_tetra))) (Inr near_sample)) ''t.stl'' ''t.stl''))
       = [THIN_WALL]
   \<and> decision (validate_mesh (MeshValidator_init None None None)
        (example_env (Inr (Single (Mesh unit_tetra))) (Inr near_sample)) ''t.stl'' ''t.stl'')
       = ALLOW_WITH_WARNINGS
   \<and> warnings (validate_mesh (MeshValidator_init None None None)
        (example_env (Inr (Single (Mesh unit_tetra))) (Inr far_sample)) ''t.stl'' ''t.stl'') = []
   \<and> decision (validate_mesh (MeshValidator_init None None None)
        (example_env (Inr (Single (Mesh unit_tetra))) (Inr far_sample)) ''t.stl'' ''t.stl'')
       = ALLOW"
proof -
  let ?V = "MeshValidator_init None None None"
  let ?E1 = "example_env (Inr (Single (Mesh unit_tetra))) (Inr near_sample)"
  let ?E2 = "example_env (Inr (Single (Mesh unit_tetra))) (Inr far_sample)"
  have ld: "load ?E1 ''t.stl'' = load ?E2 ''t.stl''" by (simp add: example_env_def)
  have n: "length near_sample = 1000" "length far_sample = 1000"
    by (simp_all add: near_sample_def far_sample_def)
  have ua: "is_watertight unit_tetra = Inr True" "is_winding_consistent unit_tetra = Inr True"
    "split unit_tetra = Inr 1"
    by (simp_all add: unit_tetra_def)
  have l1: "load_mesh ?E1 ''t.stl'' = Inr unit_tetra"
    by (rule load_mesh_example) (rule unit_tetra_geometry)
  have l2: "load_mesh ?E2 ''t.stl'' = Inr unit_tetra"
    by (rule load_mesh_example) (rule unit_tetra_geometry)
  from clean_mesh_checks[OF ua unit_tetra_geometry(1) unit_tetra_geometry(3)
      unit_tetra_geometry(2) unit_tetra_geometry(4) unit_tetra_geometry(5), of ?V ?E1]
  obtain w1 where run1: "run_validation_checks ?V ?E1 unit_tetra = Inr ([], w1)"
    and c1: "map code w1 = [THIN_WALL]"
    unfolding thin_points_unit_tetra_near_sample by auto
  from clean_mesh_checks[OF ua unit_tetra_geometry(1) unit_tetra_geometry(3)
      unit_tetra_geometry(2) unit_tetra_geometry(4) unit_tetra_geometry(5), of ?V ?E2]
  obtain w2 where run2: "run_validation_checks ?V ?E2 unit_tetra = Inr ([], w2)"
    and c2: "map code w2 = []"
    unfolding thin_points_unit_tetra_far_sample by auto
  from c1 have ne1: "w1 \<noteq> []" by auto
  from c2 have e2: "w2 = []" by simp
  have a: "map code (warnings (validate_mesh ?V ?E1 ''t.stl'' ''t.stl'')) = [THIN_WALL]"
    unfolding validate_mesh_loaded[OF l1 run1] using c1 by simp
  have b: "decision (validate_mesh ?V ?E1 ''t.stl'' ''t.stl'') = ALLOW_WITH_WARNINGS"
    unfolding validate_mesh_loaded[OF l1 run1] using ne1 by (simp add: determine_decision_def)
  have c: "warnings (validate_mesh ?V ?E2 ''t.stl'' ''t.stl'') = []"
    unfolding validate_mesh_loaded[OF l2 run2] using e2 by simp
  have d: "decision (validate_mesh ?V ?E2 ''t.stl'' ''t.stl'') = ALLOW"
    unfolding validate_mesh_loaded[OF l2 run2] using e2 by (simp add: determine_decision_def)
  show ?thesis
    by (intro conjI) (fact ld n a b c d)+
qed

text \<open>
  Claim C5, amended: two runs on the same input (the loader returns the same object, the
  threshold is printed the same way), which may differ in the sampler's outcome, the
  identifier and the clock, yield identical metrics, identical errors and identical
  warnings other than THIN_WALL, and one decides BLOCK exactly when the other does.  When
  the points evaluated by the thin-wall check are the same in both runs, the warnings and
  the decision are identical too.
\<close>

theorem rerun_same_input:
  assumes "load ev' = load ev" and "str_float ev' = str_float ev"
  shows "metrics (validate_mesh self ev' file_path fname)
           = metrics (validate_mesh self ev file_path fname)
       \<and> errors (validate_mesh self ev' file_path fname)
           = errors (validate_mesh self ev file_path fname)
       \<and> filter (\<lambda>w. code w \<noteq> THIN_WALL) (warnings (validate_mesh self ev' file_path fname))
           = filter (\<lambda>w. code w \<noteq> THIN_WALL) (warnings (validate_mesh self ev file_path fname))
       \<and> (decision (validate_mesh self ev' file_path fname) = BLOCK
            \<longleftrightarrow> decision (validate_mesh self ev file_path fname) = BLOCK)
       \<and> ((\<forall>mesh. load_mesh ev file_path = Inr mesh \<longrightarrow>
               evaluated_points ev' mesh = evaluated_points ev mesh) \<longrightarrow>
            warnings (validate_mesh self ev' file_path fname)
              = warnings (validate_mesh self ev file_path fname)
          \<and> decision (validate_mesh self ev' file_path fname)
              = decision (validate_mesh self ev file_path fname))"
proof -
  have lm: "load_mesh ev' file_path = load_mesh ev file_path"
    by (rule load_mesh_same_loader[OF assms(1)])
  show ?thesis
  proof (cases "load_mesh ev file_path")
    case (Inl e)
    with lm have l': "load_mesh ev' file_path = Inl e" by simp
    show ?thesis
      unfolding validate_mesh_load_failure[OF Inl] validate_mesh_load_failure[OF l'] by simp
  next
    case (Inr mesh)
    with lm have l': "load_mesh ev' file_path = Inr mesh" by simp
    show ?thesis
    proof (cases "run_validation_checks self ev mesh")
      case (Inl e)
      then have r': "run_validation_checks self ev' mesh = Inl e"
        unfolding run_validation_checks_Inl_iff .
      show ?thesis
        unfolding validate_mesh_check_failure[OF Inr Inl] validate_mesh_check_failure[OF l' r']
        by simp
    next
      case r: (Inr p)
      obtain errs warns where p: "p = (errs, warns)" by (cases p)
      from r p have run: "run_validation_checks self ev mesh = Inr (errs, warns)" by simp
      from run_validation_checks_Inr_D[OF run] obtain wt wc k dg where
        f: "is_watertight mesh = Inr wt" "is_winding_consistent mesh = Inr wc"
           "split mesh = Inr k" "find_degenerate_faces mesh = Inr dg" by blast
      from run_validation_checks_Inr[OF f, of self ev']
      obtain errs' warns' where run': "run_validation_checks self ev' mesh = Inr (errs', warns')"
        by blast
      note q = run_validation_checks_rerun[OF f, of self ev' ev]
      from q(1) have e: "errs' = errs" unfolding run run' by simp
      from q(2) have w: "filter (\<lambda>w. code w \<noteq> THIN_WALL) warns'
                          = filter (\<lambda>w. code w \<noteq> THIN_WALL) warns"
        unfolding run run' by simp
      have same: "warns' = warns"
        if h: "\<forall>mesh. load_mesh ev file_path = Inr mesh \<longrightarrow>
                 evaluated_points ev' mesh = evaluated_points ev mesh"
      proof -
        from h Inr have "evaluated_points ev' mesh = evaluated_points ev mesh" by blast
        then have "detect_thin_walls self ev' mesh = detect_thin_walls self ev mesh"
          unfolding detect_thin_walls_evaluated by simp
        from q(3)[OF this assms(2)] show ?thesis unfolding run run' by simp
      qed
      have m: "metrics (validate_mesh self ev' file_path fname)
                 = metrics (validate_mesh self ev file_path fname)"
        unfolding validate_mesh_loaded[OF Inr run] validate_mesh_loaded[OF l' run'] by simp
      have er: "errors (validate_mesh self ev' file_path fname)
                 = errors (validate_mesh self ev file_path fname)"
        unfolding validate_mesh_loaded[OF Inr run] validate_mesh_loaded[OF l' run']
        using e by simp
      have wr: "warnings (validate_mesh self ev' file_path fname) = warns'"
        "warnings (validate_mesh self ev file_path fname) = warns"
        unfolding validate_mesh_loaded[OF Inr run] validate_mesh_loaded[OF l' run'] by simp_all
      have dr: "decision (validate_mesh self ev' file_path fname) = determine_decision errs warns'"
        "decision (validate_mesh self ev file_path fname) = determine_decision errs warns"
        unfolding validate_mesh_loaded[OF Inr run] validate_mesh_loaded[OF l' run']
        using e by simp_all
      have bl: "determine_decision errs warns' = BLOCK \<longleftrightarrow> determine_decision errs warns = BLOCK"
        by (simp add: determine_decision_def)
      show ?thesis
        unfolding wr dr using m er w bl same by blast
    qed
  qed
qed

text \<open>
  Claim C5, witness: a second run with another identifier and clock and the same sampled
  points.
\<close>

theorem rerun_same_input_witness:
  "load ((example_env (Inr (Single (Mesh unit_tetra))) (Inr far_sample))
           \<lparr>uuid4 := ''5d2e8a31-0c47-4b9a-8f6e-1a2b3c4d5e6f'', elapsed_ms := 15,
            utcnow_isoformat := ''2024-05-01T10:05:00''\<rparr>)
     = load (example_env (Inr (Single (Mesh unit_tetra))) (Inr far_sample))
   \<and> str_float ((example_env (Inr (Single (Mesh unit_tetra))) (Inr far_sample))
           \<lparr>uuid4 := ''5d2e8a31-0c47-4b9a-8f6e-1a2b3c4d5e6f'', elapsed_ms := 15,
            utcnow_isoformat := ''2024-05-01T10:05:00''\<rparr>)
     = str_float (example_env (Inr (Single (Mesh unit_tetra))) (Inr far_sample))
   \<and> load_mesh (example_env (Inr (Single (Mesh unit_tetra))) (Inr far_sample)) ''t.stl''
       = Inr unit_tetra
   \<and> evaluated_points ((example_env (Inr (Single (Mesh unit_tetra))) (Inr far_sample))
           \<lparr>uuid4 := ''5d2e8a31-0c47-4b9a-8f6e-1a2b3c4d5e6f'', elapsed_ms := 15,
            utcnow_isoformat := ''2024-05-01T10:05:00''\<rparr>) unit_tetra
       = evaluated_points (example_env (Inr (Single (Mesh unit_tetra))) (Inr far_sample)) unit_tetra
   \<and> metrics (validate_mesh (MeshValidator_init None None None)
        ((example_env (Inr (Single (Mesh unit_tetra))) (Inr far_sample))
           \<lparr>uuid4 := ''5d2e8a31-0c47-4b9a-8f6e-1a2b3c4d5e6f'', elapsed_ms := 15,
            utcnow_isoformat := ''2024-05-01T10:05:00''\<rparr>) ''t.stl'' ''t.stl'')
       = metrics (validate_mesh (MeshValidator_init None None None)
           (example_env (Inr (Single (Mesh unit_tetra))) (Inr far_sample)) ''t.stl'' ''t.stl'')
   \<and> errors (validate_mesh (MeshValidator_init None None None)
        ((example_env (Inr (Single (Mesh unit_tetra))) (Inr far_sample))
           \<lparr>uuid4 := ''5d2e8a31-0c47-4b9a-8f6e-1a2b3c4d5e6f'', elapsed_ms := 15,
            utcnow_isoformat := ''2024-05-01T10:05:00''\<rparr>) ''t.stl'' ''t.stl'')
       = errors (validate_mesh (MeshValidator_init None None None)
           (example_env (Inr (Single (Mesh unit_tetra))) (Inr far_sample)) ''t.stl'' ''t.stl'')
   \<and> warnings (validate_mesh (MeshValidator_init None None None)
        ((example_env (Inr (Single (Mesh unit_tetra))) (Inr far_sample))
           \<lparr>uuid4 := ''5d2e8a31-0c47-4b9a-8f6e-1a2b3c4d5e6f'', elapsed_ms := 15,
            utcnow_isoformat := ''2024-05-01T10:05:00''\<rparr>) ''t.stl'' ''t.stl'')
       = warnings (validate_mesh (MeshValidator_init None None None)
           (example_env (Inr (Single (Mesh unit_tetra))) (Inr far_sample)) ''t.stl'' ''t.stl'')
   \<and> decision (validate_mesh (MeshValidator_init None None None)
        ((example_env (Inr (Single (Mesh unit_tetra))) (Inr far_sample))
           \<lparr>uuid4 := ''5d2e8a31-0c47-4b9a-8f6e-1a2b3c4d5e6f'', elapsed_ms := 15,
            utcnow_isoformat := ''2024-05-01T10:05:00''\<rparr>) ''t.stl'' ''t.stl'')
       = decision (validate_mesh (MeshValidator_init None None None)
           (example_env (Inr (Single (Mesh unit_tetra))) (Inr far_sample)) ''t.stl'' ''t.stl'')"
proof -
  let ?V = "MeshValidator_init None None None"
  let ?E = "example_env (Inr (Single (Mesh unit_tetra))) (Inr far_sample)"
  let ?E' = "?E\<lparr>uuid4 := ''5d2e8a31-0c47-4b9a-8f6e-1a2b3c4d5e6f'', elapsed_ms := 15,
               utcnow_isoformat := ''2024-05-01T10:05:00''\<rparr>"
  have ld: "load ?E' = load ?E" by simp
  have sf: "str_float ?E' = str_float ?E" by simp
  have l: "load_mesh ?E ''t.stl'' = Inr unit_tetra"
    by (rule load_mesh_example) (rule unit_tetra_geometry)
  have ep: "evaluated_points ?E' mesh = evaluated_points ?E mesh" for mesh
    by (simp add: evaluated_points_def)
  then have h: "\<forall>mesh. load_mesh ?E ''t.stl'' = Inr mesh \<longrightarrow>
                 evaluated_points ?E' mesh = evaluated_points ?E mesh"
    by blast
  note th = rerun_same_input[OF ld sf, of ?V "''t.stl''" "''t.stl''"]
  from th h have
    "metrics (validate_mesh ?V ?E' ''t.stl'' ''t.stl'')
       = metrics (validate_mesh ?V ?E ''t.stl'' ''t.stl'')"
    "errors (validate_mesh ?V ?E' ''t.stl'' ''t.stl'')
       = errors (validate_mesh ?V ?E ''t.stl'' ''t.stl'')"
    "warnings (validate_mesh ?V ?E' ''t.stl'' ''t.stl'')
       = warnings (validate_mesh ?V ?E ''t.stl'' ''t.stl'')"
    "decision (validate_mesh ?V ?E' ''t.stl'' ''t.stl'')
       = decision (validate_mesh ?V ?E ''t.stl'' ''t.stl'')"
    by blast+
  with ld sf l ep[of unit_tetra] show ?thesis
    by (intro conjI)
qed

section \<open>Properties of the decision\<close>

lemma list_ex_severity_iff:
  "list_ex (\<lambda>e. severity e = error) errs \<longleftrightarrow> (\<exists>e\<in>set errs. severity e = error)"
  by (simp add: list_ex_iff)

text \<open>
  Claim C1, as stated, fails: the decision is BLOCK only when the errors list holds an
  issue whose severity is \<^verbatim>\<open>"error"\<close>.  A non-empty errors list whose only issue has
  severity \<^verbatim>\<open>"warning"\<close>, with no warnings, is allowed.
\<close>

theorem determine_decision_nonempty_errors_counterexample:
  "[\<lparr>code = NOT_WATERTIGHT, message = ''open'', severity = warning, count = None,
      locations = None\<rparr>] \<noteq> []
   \<and> determine_decision
       [\<lparr>code = NOT_WATERTIGHT, message = ''open'', severity = warning, count = None,
          locations = None\<rparr>] [] = ALLOW"
  by (simp add: determine_decision_def)

text \<open>
  Claim C1, amended: the decision is a function of the two lists alone; it is BLOCK if and
  only if the errors list contains an issue of severity \<^verbatim>\<open>"error"\<close>, otherwise
  ALLOW_WITH_WARNINGS if and only if the warnings list is non-empty, otherwise ALLOW; it
  does not change when either list is reordered; and when every issue of the errors list
  has severity \<^verbatim>\<open>"error"\<close>, BLOCK is equivalent to the errors list being non-empty.
\<close>

theorem determine_decision_characterisation:
  "(determine_decision errs warns = BLOCK \<longleftrightarrow> (\<exists>e\<in>set errs. severity e = error))
   \<and> (determine_decision errs warns = ALLOW_WITH_WARNINGS \<longleftrightarrow>
        \<not> (\<exists>e\<in>set errs. severity e = error) \<and> warns \<noteq> [])
   \<and> (determine_decision errs warns = ALLOW \<longleftrightarrow>
        \<not> (\<exists>e\<in>set errs. severity e = error) \<and> warns = [])
   \<and> (mset errs' = mset errs \<and> mset warns' = mset warns \<longrightarrow>
        determine_decision errs' warns' = determine_decision errs warns)
   \<and> ((\<forall>e\<in>set errs. severity e = error) \<longrightarrow>
        (determine_decision errs warns = BLOCK \<longleftrightarrow> errs \<noteq> []))"
proof -
  have perm: "determine_decision errs' warns' = determine_decision errs warns"
    if "mset errs' = mset errs" "mset warns' = mset warns"
  proof -
    from that(1) have "set errs' = set errs" by (rule mset_eq_setD)
    moreover from that(2) have "warns' = [] \<longleftrightarrow> warns = []"
      by (metis mset_zero_iff)
    ultimately show ?thesis
      by (simp add: determine_decision_def list_ex_severity_iff)
  qed
  have all: "(\<exists>e\<in>set errs. severity e = error) \<longleftrightarrow> errs \<noteq> []"
    if "\<forall>e\<in>set errs. severity e = error"
    using that by (cases errs) auto
  show ?thesis
    using perm all by (auto simp: determine_decision_def list_ex_severity_iff)
qed

theorem determine_decision_characterisation_witness:
  "mset [ValidationIssue_new DEGENERATE_FACES ''d'' None, ValidationIssue_new NOT_WATERTIGHT ''w'' None]
     = mset [ValidationIssue_new NOT_WATERTIGHT ''w'' None, ValidationIssue_new DEGENERATE_FACES ''d'' None]
   \<and> severity (ValidationIssue_new NOT_WATERTIGHT ''w'' None) = error
   \<and> severity (ValidationIssue_new DEGENERATE_FACES ''d'' None) = error
   \<and> determine_decision
        [ValidationIssue_new DEGENERATE_FACES ''d'' None, ValidationIssue_new NOT_WATERTIGHT ''w'' None] []
      = determine_decision
        [ValidationIssue_new NOT_WATERTIGHT ''w'' None, ValidationIssue_new DEGENERATE_FACES ''d'' None] []
   \<and> determine_decision
        [ValidationIssue_new NOT_WATERTIGHT ''w'' None, ValidationIssue_new DEGENERATE_FACES ''d'' None] []
      = BLOCK"
  using determine_decision_characterisation
    [of "[ValidationIssue_new NOT_WATERTIGHT ''w'' None, ValidationIssue_new DEGENERATE_FACES ''d'' None]"
        "[]"
        "[ValidationIssue_new DEGENERATE_FACES ''d'' None, ValidationIssue_new NOT_WATERTIGHT ''w'' None]"
        "[]"]
  by (simp add: ValidationIssue_new_def)

end
